theory Spec2Isabelle
  imports Main "HOL-Library.Sublist"
begin

section \<open>JavaScript values as delivered by the YAML parser\<close>

text \<open>
  The intent definition document is parsed by \<open>yaml.parse\<close> into plain JavaScript data.
  Numbers are IEEE doubles in the source; the development is parametric in the number type
  \<open>'n\<close> and in the three observations the code makes of a number (truthiness, finiteness,
  \<open>String(n)\<close>). Strings are \<open>string\<close>; a character is a code unit below 256 and
  strings with larger code units are not represented. White space is that of the range
  (9-13, 32 and 160). Upper-casing is the one of \<open>String.prototype.toUpperCase\<close> on the
  range; it can leave the range and change the length, so its result is a list of code units.
  An object is the list of its own properties in enumeration order; a property read takes
  the first entry of a key. Values are trees: no sharing and no cycles.
\<close>

datatype 'n jsval =
    JUndefined
  | JNull
  | JBool bool
  | JNum 'n
  | JStr string
  | JArr "'n jsval list"
  | JObj "(string \<times> 'n jsval) list"

record 'n numops =
  numTruthy :: "'n \<Rightarrow> bool"
  numFinite :: "'n \<Rightarrow> bool"
  numToString :: "'n \<Rightarrow> string"

datatype js_error = JsError string

fun errorMessage :: "js_error \<Rightarrow> string" where
  "errorMessage (JsError m) = m"

text \<open>\<open>Array.prototype.join\<close> on strings.\<close>

fun join :: "string \<Rightarrow> string list \<Rightarrow> string" where
  "join sep [] = []"
| "join sep [x] = x"
| "join sep (x # y # ys) = x @ sep @ join sep (y # ys)"

text \<open>Truthiness, \<open>a || b\<close>, \<open>a ?? b\<close>, and a property read on a non-nullish value.\<close>

fun truthy :: "'n numops \<Rightarrow> 'n jsval \<Rightarrow> bool" where
  "truthy N JUndefined = False"
| "truthy N JNull = False"
| "truthy N (JBool b) = b"
| "truthy N (JNum n) = numTruthy N n"
| "truthy N (JStr s) = (s \<noteq> [])"
| "truthy N (JArr xs) = True"
| "truthy N (JObj kvs) = True"

definition jsOr :: "'n numops \<Rightarrow> 'n jsval \<Rightarrow> 'n jsval \<Rightarrow> 'n jsval" where
  "jsOr N a b = (if truthy N a then a else b)"

definition isNullish :: "'n jsval \<Rightarrow> bool" where
  "isNullish v = (v = JNull \<or> v = JUndefined)"

definition jsCoalesce :: "'n jsval \<Rightarrow> 'n jsval \<Rightarrow> 'n jsval" where
  "jsCoalesce a b = (if isNullish a then b else a)"

fun getProp :: "'n jsval \<Rightarrow> string \<Rightarrow> 'n jsval" where
  "getProp (JObj kvs) k = (case map_of kvs k of Some v \<Rightarrow> v | None \<Rightarrow> JUndefined)"
| "getProp v k = JUndefined"

text \<open>Results of a list of computations in order: the first that raises ends it.\<close>

fun sequenceE :: "(js_error + 'a) list \<Rightarrow> js_error + 'a list" where
  "sequenceE [] = Inr []"
| "sequenceE (r # rs) =
     (case r of
        Inl e \<Rightarrow> Inl e
      | Inr x \<Rightarrow> (case sequenceE rs of Inl e \<Rightarrow> Inl e | Inr xs \<Rightarrow> Inr (x # xs)))"

text \<open>\<open>String(v)\<close>: an array joins the strings of its elements, null and undefined
  elements giving the empty string. A plain object gives \<open>[object Object]\<close> through the
  inherited \<open>toString\<close>; an object with an own property \<open>toString\<close>, which parsed data
  cannot call, has no primitive value and the conversion raises a TypeError.\<close>

definition notPrimitiveError :: "js_error" where
  "notPrimitiveError = JsError ''Cannot convert object to primitive value''"

fun jsString :: "'n numops \<Rightarrow> 'n jsval \<Rightarrow> js_error + string" where
  "jsString N JUndefined = Inr ''undefined''"
| "jsString N JNull = Inr ''null''"
| "jsString N (JBool b) = Inr (if b then ''true'' else ''false'')"
| "jsString N (JNum n) = Inr (numToString N n)"
| "jsString N (JStr s) = Inr s"
| "jsString N (JArr xs) =
     (case sequenceE
             (map (\<lambda>x. if x = JNull \<or> x = JUndefined then Inr [] else jsString N x) xs) of
        Inl e \<Rightarrow> Inl e
      | Inr ss \<Rightarrow> Inr (join '','' ss))"
| "jsString N (JObj kvs) =
     (if map_of kvs ''toString'' \<noteq> None then Inl notPrimitiveError
      else Inr ''[object Object]'')"

text \<open>\<open>String.prototype.trim\<close> and \<open>String.prototype.toUpperCase\<close>.\<close>

definition isWhiteSpace :: "char \<Rightarrow> bool" where
  "isWhiteSpace c = ((of_char c :: nat) \<in> {9, 10, 11, 12, 13, 32, 160})"

definition trim :: "string \<Rightarrow> string" where
  "trim s = rev (dropWhile isWhiteSpace (rev (dropWhile isWhiteSpace s)))"

text \<open>The upper-case mapping of the code units below 256: the letters a-z and the
  Latin-1 letters 224-254 except the division sign 247 move down by 32, the micro sign 181
  becomes the Greek capital mu 924, the sharp s 223 becomes two capital S, the y with
  diaeresis 255 becomes 376; every other code unit is unchanged.\<close>

definition upperChar :: "char \<Rightarrow> nat list" where
  "upperChar c =
     (let n = (of_char c :: nat) in
      if 97 \<le> n \<and> n \<le> 122 then [n - 32]
      else if n = 181 then [924]
      else if n = 223 then [83, 83]
      else if (224 \<le> n \<and> n \<le> 246) \<or> (248 \<le> n \<and> n \<le> 254) then [n - 32]
      else if n = 255 then [376]
      else [n])"

definition toUpperCase :: "string \<Rightarrow> nat list" where
  "toUpperCase s = concat (map upperChar s)"

text \<open>The code units of a string literal of the source.\<close>

definition codeUnits :: "string \<Rightarrow> nat list" where
  "codeUnits s = map of_char s"

text \<open>\<open>JSON.stringify\<close>: \<open>None\<close> is the result \<open>undefined\<close>. A property whose value
  has no JSON text is left out of an object and is \<open>null\<close> in an array.\<close>

definition hexDigit :: "nat \<Rightarrow> char" where
  "hexDigit n = ''0123456789abcdef'' ! (n mod 16)"

definition quoteChar :: "char \<Rightarrow> string" where
  "quoteChar c =
     (let n = (of_char c :: nat) in
      if c = CHR 0x22 then [CHR 0x5C, CHR 0x22]
      else if c = CHR 0x5C then [CHR 0x5C, CHR 0x5C]
      else if n = 8 then [CHR 0x5C, CHR ''b'']
      else if n = 12 then [CHR 0x5C, CHR ''f'']
      else if n = 10 then [CHR 0x5C, CHR ''n'']
      else if n = 13 then [CHR 0x5C, CHR ''r'']
      else if n = 9 then [CHR 0x5C, CHR ''t'']
      else if n < 32
        then [CHR 0x5C, CHR ''u'', CHR ''0'', CHR ''0'', hexDigit (n div 16), hexDigit n]
      else [c])"

definition quoteJSONString :: "string \<Rightarrow> string" where
  "quoteJSONString s = [CHR 0x22] @ concat (map quoteChar s) @ [CHR 0x22]"

fun jsonStringify :: "'n numops \<Rightarrow> 'n jsval \<Rightarrow> string option" where
  "jsonStringify N JUndefined = None"
| "jsonStringify N JNull = Some ''null''"
| "jsonStringify N (JBool b) = Some (if b then ''true'' else ''false'')"
| "jsonStringify N (JNum n) = Some (if numFinite N n then numToString N n else ''null'')"
| "jsonStringify N (JStr s) = Some (quoteJSONString s)"
| "jsonStringify N (JArr xs) =
     Some (''['' @ join '',''
        (map (\<lambda>x. case jsonStringify N x of None \<Rightarrow> ''null'' | Some t \<Rightarrow> t) xs) @ '']'')"
| "jsonStringify N (JObj kvs) =
     Some (''{'' @ join '',''
        (concat (map (\<lambda>(k, v). case jsonStringify N v of None \<Rightarrow> []
                     | Some t \<Rightarrow> [quoteJSONString k @ '':'' @ t]) kvs)) @ ''}'')"

section \<open>Intents and their normalization (IntentManager.ts)\<close>

datatype IntentStatus = PLANNED | PENDING | IN_PROGRESS | COMPLETED | BLOCKED

record 'n ActiveIntent =
  id' :: string
  name :: string
  description :: string
  status :: IntentStatus
  ownedScope :: "string list"
  constraints :: "string list"
  acceptanceCriteria :: "string list"
  metadata :: "'n jsval"

text \<open>\<open>normalizeStringArray\<close>: a non-array gives the empty list; each item is turned
  into a string (\<open>String(item ?? "")\<close> unless it is one), trimmed, and kept when not empty.\<close>

definition normalizeStringArray ::
  "'n numops \<Rightarrow> 'n jsval \<Rightarrow> js_error + string list" where
  "normalizeStringArray N v =
     (case v of
        JArr xs \<Rightarrow>
          (case sequenceE
                  (map (\<lambda>item. case item of JStr s \<Rightarrow> Inr s
                              | _ \<Rightarrow> jsString N (jsCoalesce item (JStr []))) xs) of
             Inl e \<Rightarrow> Inl e
           | Inr strings \<Rightarrow>
               Inr (filter (\<lambda>item. length item > 0) (map (\<lambda>item. trim item) strings)))
      | _ \<Rightarrow> Inr [])"

text \<open>\<open>typeof item === "object"\<close> for a truthy item: objects and arrays.\<close>

fun isObjectLike :: "'n jsval \<Rightarrow> bool" where
  "isObjectLike (JArr xs) = True"
| "isObjectLike (JObj kvs) = True"
| "isObjectLike v = False"

text \<open>The loop of \<open>normalizeConstraints\<close>, with the list \<open>normalized\<close> as accumulator.\<close>

fun constraintsLoop :: "'n numops \<Rightarrow> 'n jsval list \<Rightarrow> string list \<Rightarrow> string list" where
  "constraintsLoop N [] normalized = normalized"
| "constraintsLoop N (item # rest) normalized =
     (case item of
        JStr s \<Rightarrow>
          (let trimmed = trim s in
           if trimmed \<noteq> [] then constraintsLoop N rest (normalized @ [trimmed])
           else constraintsLoop N rest normalized)
      | _ \<Rightarrow>
          if isObjectLike item then
            (case getProp item ''rule'' of
               JStr r \<Rightarrow>
                 if length (trim r) > 0 then constraintsLoop N rest (normalized @ [trim r])
                 else (case jsonStringify N item of
                         Some compact \<Rightarrow>
                           if compact \<noteq> [] then constraintsLoop N rest (normalized @ [compact])
                           else constraintsLoop N rest normalized
                       | None \<Rightarrow> constraintsLoop N rest normalized)
             | _ \<Rightarrow>
                 (case jsonStringify N item of
                    Some compact \<Rightarrow>
                      if compact \<noteq> [] then constraintsLoop N rest (normalized @ [compact])
                      else constraintsLoop N rest normalized
                  | None \<Rightarrow> constraintsLoop N rest normalized))
          else constraintsLoop N rest normalized)"

definition normalizeConstraints :: "'n numops \<Rightarrow> 'n jsval \<Rightarrow> string list" where
  "normalizeConstraints N v = (case v of JArr xs \<Rightarrow> constraintsLoop N xs [] | _ \<Rightarrow> [])"

definition statusOf :: "nat list \<Rightarrow> IntentStatus" where
  "statusOf rawStatus =
     (if rawStatus = codeUnits ''PLANNED'' then PLANNED
      else if rawStatus = codeUnits ''PENDING'' then PENDING
      else if rawStatus = codeUnits ''IN_PROGRESS'' then IN_PROGRESS
      else if rawStatus = codeUnits ''COMPLETED'' then COMPLETED
      else if rawStatus = codeUnits ''BLOCKED'' then BLOCKED
      else PENDING)"

text \<open>\<open>normalizeIntent\<close>. Reading a property of a null or undefined entry raises a
  TypeError in the source; every other entry is normalized field by field, in the order of
  the source, and a conversion to a string that raises ends the normalization.\<close>

definition nullEntryError :: "js_error" where
  "nullEntryError =
     JsError (''Cannot read properties of null (reading '' @ [CHR 0x27] @ ''status''
              @ [CHR 0x27] @ '')'')"

definition normalizeIntent :: "'n numops \<Rightarrow> 'n jsval \<Rightarrow> js_error + 'n ActiveIntent" where
  "normalizeIntent N rawIntent =
     (if isNullish rawIntent then Inl nullEntryError
      else
        case jsString N (jsOr N (getProp rawIntent ''status'') (JStr ''PENDING'')) of
          Inl e \<Rightarrow> Inl e
        | Inr statusString \<Rightarrow>
        let rawStatus = toUpperCase statusString in
        case jsString N (jsOr N (getProp rawIntent ''id'') (JStr [])) of
          Inl e \<Rightarrow> Inl e
        | Inr idString \<Rightarrow>
        case jsString N (jsOr N (getProp rawIntent ''name'') (JStr [])) of
          Inl e \<Rightarrow> Inl e
        | Inr nameString \<Rightarrow>
        case jsString N (jsOr N (getProp rawIntent ''description'') (JStr [])) of
          Inl e \<Rightarrow> Inl e
        | Inr descriptionString \<Rightarrow>
        case normalizeStringArray N
               (jsCoalesce (getProp rawIntent ''ownedScope'') (getProp rawIntent ''owned_scope'')) of
          Inl e \<Rightarrow> Inl e
        | Inr scope \<Rightarrow>
        case normalizeStringArray N
               (jsCoalesce (getProp rawIntent ''acceptanceCriteria'')
                           (getProp rawIntent ''acceptance_criteria'')) of
          Inl e \<Rightarrow> Inl e
        | Inr criteria \<Rightarrow>
          Inr \<lparr>
            id' = idString,
            name = nameString,
            description = descriptionString,
            status = statusOf rawStatus,
            ownedScope = scope,
            constraints = normalizeConstraints N (getProp rawIntent ''constraints''),
            acceptanceCriteria = criteria,
            metadata =
              (if truthy N (getProp rawIntent ''metadata'')
                  \<and> isObjectLike (getProp rawIntent ''metadata'')
               then getProp rawIntent ''metadata'' else JObj [])
          \<rparr>)"

text \<open>Data on which \<open>String\<close> cannot raise: no object in it has an own property
  \<open>toString\<close>.\<close>

fun convertible :: "'n jsval \<Rightarrow> bool" where
  "convertible (JArr xs) = list_all convertible xs"
| "convertible (JObj kvs) =
     (map_of kvs ''toString'' = None \<and> list_all (\<lambda>kv. convertible (snd kv)) kvs)"
| "convertible v = True"

text \<open>\<open>rawIntents.map(normalizeIntent)\<close>: the first entry that raises ends the map.\<close>

fun normalizeAll :: "'n numops \<Rightarrow> 'n jsval list \<Rightarrow> js_error + 'n ActiveIntent list" where
  "normalizeAll N [] = Inr []"
| "normalizeAll N (raw # rest) =
     (case normalizeIntent N raw of
        Inl e \<Rightarrow> Inl e
      | Inr i \<Rightarrow> (case normalizeAll N rest of Inl e \<Rightarrow> Inl e | Inr is \<Rightarrow> Inr (i # is)))"

section \<open>External collaborators and the shared state\<close>

text \<open>
  The storage (\<open>OrchestrationStorage\<close>), the YAML parser, the patch parser, the scope
  validator, the file system, the hash function, the clock and the path functions are not
  part of the code under study: they are parameters. \<open>'w\<close> is the state of the outside
  world; an operation that can raise returns \<open>Inl\<close>. The scope validator, the hash, the
  clock and the path functions are total. A hunk of a parsed patch is known by its type, its
  path and its move destination. The state records, besides the fields of
  \<open>IntentManager\<close>, the outside world and the sequence of external calls made so far,
  a read of the file system with its outcome; that sequence is only written, never read, by
  the code.
\<close>

datatype HunkType = AddFile | DeleteFile | UpdateFile

record Hunk =
  hunkType :: HunkType
  hunkPath :: string
  movePath :: "string option"

record ('w, 'n) env =
  num :: "'n numops"
  fileExists :: "string \<Rightarrow> 'w \<Rightarrow> (js_error + bool) \<times> 'w"
  readFile :: "string \<Rightarrow> 'w \<Rightarrow> (js_error + string) \<times> 'w"
  writeFile :: "string \<Rightarrow> string \<Rightarrow> 'w \<Rightarrow> (js_error + unit) \<times> 'w"
  appendFile :: "string \<Rightarrow> string \<Rightarrow> 'w \<Rightarrow> (js_error + unit) \<times> 'w"
  yamlParse :: "string \<Rightarrow> js_error + 'n jsval"
  parsePatch :: "string \<Rightarrow> js_error + Hunk list"
  validatePath :: "string \<Rightarrow> string list \<Rightarrow> bool"
  fsReadFile :: "string \<Rightarrow> 'w \<Rightarrow> (js_error + string) \<times> 'w"
  sha256Hex :: "string \<Rightarrow> string"
  nowISOString :: "'w \<Rightarrow> string"
  isAbsolute :: "string \<Rightarrow> bool"
  pathResolve :: "string \<Rightarrow> string \<Rightarrow> string"

datatype call =
    CallFileExists string
  | CallReadFile string
  | CallWriteFile string string
  | CallAppendFile string string
  | CallYamlParse string
  | CallFsReadFile string "js_error + string"

record ('w, 'n) state =
  intentsCache :: "'n ActiveIntent list option"
  activeIntentsByTask :: "string \<rightharpoonup> string"
  world :: 'w
  calls :: "call list"

definition storageFileExists ::
  "('w, 'n) env \<Rightarrow> string \<Rightarrow> ('w, 'n) state \<Rightarrow> (js_error + bool) \<times> ('w, 'n) state" where
  "storageFileExists E f st =
     (case fileExists E f (world st) of
        (r, w) \<Rightarrow> (r, st\<lparr>world := w, calls := calls st @ [CallFileExists f]\<rparr>))"

definition storageReadFile ::
  "('w, 'n) env \<Rightarrow> string \<Rightarrow> ('w, 'n) state \<Rightarrow> (js_error + string) \<times> ('w, 'n) state" where
  "storageReadFile E f st =
     (case readFile E f (world st) of
        (r, w) \<Rightarrow> (r, st\<lparr>world := w, calls := calls st @ [CallReadFile f]\<rparr>))"

definition storageWriteFile ::
  "('w, 'n) env \<Rightarrow> string \<Rightarrow> string \<Rightarrow> ('w, 'n) state \<Rightarrow> (js_error + unit) \<times> ('w, 'n) state" where
  "storageWriteFile E f c st =
     (case writeFile E f c (world st) of
        (r, w) \<Rightarrow> (r, st\<lparr>world := w, calls := calls st @ [CallWriteFile f c]\<rparr>))"

definition storageAppendFile ::
  "('w, 'n) env \<Rightarrow> string \<Rightarrow> string \<Rightarrow> ('w, 'n) state \<Rightarrow> (js_error + unit) \<times> ('w, 'n) state" where
  "storageAppendFile E f c st =
     (case appendFile E f c (world st) of
        (r, w) \<Rightarrow> (r, st\<lparr>world := w, calls := calls st @ [CallAppendFile f c]\<rparr>))"

definition callYamlParse ::
  "('w, 'n) env \<Rightarrow> string \<Rightarrow> ('w, 'n) state \<Rightarrow> (js_error + 'n jsval) \<times> ('w, 'n) state" where
  "callYamlParse E c st = (yamlParse E c, st\<lparr>calls := calls st @ [CallYamlParse c]\<rparr>)"

definition callFsReadFile ::
  "('w, 'n) env \<Rightarrow> string \<Rightarrow> ('w, 'n) state \<Rightarrow> (js_error + string) \<times> ('w, 'n) state" where
  "callFsReadFile E p st =
     (case fsReadFile E p (world st) of
        (r, w) \<Rightarrow> (r, st\<lparr>world := w, calls := calls st @ [CallFsReadFile p r]\<rparr>))"

section \<open>IntentManager\<close>

definition defaultContent :: string where
  "defaultContent =
     ''# Active Intents Configuration'' @ [CHR 0x0A] @
     ''# This file defines the available intents for this workspace.'' @ [CHR 0x0A] @
     ''# Each intent specifies what files/areas can be modified and what constraints apply.''
       @ [CHR 0x0A] @ [CHR 0x0A] @
     ''intents: []'' @ [CHR 0x0A]"

text \<open>\<open>initializeIntentsFile\<close>: a failure of the write is caught and only logged.\<close>

definition initializeIntentsFile :: "('w, 'n) env \<Rightarrow> ('w, 'n) state \<Rightarrow> ('w, 'n) state" where
  "initializeIntentsFile E st = snd (storageWriteFile E ''active_intents.yaml'' defaultContent st)"

definition parseFailure :: "js_error \<Rightarrow> js_error" where
  "parseFailure e = JsError (''Failed to parse active_intents.yaml: '' @ errorMessage e)"

text \<open>The choice of the raw entry list: \<open>parsed?.intents\<close> when it is an array, else
  \<open>parsed?.active_intents\<close> when it is one, else \<open>null\<close>.\<close>

definition rawIntentsOf :: "'n jsval \<Rightarrow> 'n jsval list option" where
  "rawIntentsOf parsed =
     (case getProp parsed ''intents'' of
        JArr xs \<Rightarrow> Some xs
      | _ \<Rightarrow> (case getProp parsed ''active_intents'' of JArr ys \<Rightarrow> Some ys | _ \<Rightarrow> None))"

definition loadIntents ::
  "('w, 'n) env \<Rightarrow> ('w, 'n) state \<Rightarrow> (js_error + 'n ActiveIntent list) \<times> ('w, 'n) state" where
  "loadIntents E st =
     (case intentsCache st of
        Some cached \<Rightarrow> (Inr cached, st)
      | None \<Rightarrow>
          (case storageFileExists E ''active_intents.yaml'' st of
             (Inl e, st1) \<Rightarrow> (Inl e, st1)
           | (Inr False, st1) \<Rightarrow>
               (Inr [], (initializeIntentsFile E st1)\<lparr>intentsCache := Some []\<rparr>)
           | (Inr True, st1) \<Rightarrow>
               (case storageReadFile E ''active_intents.yaml'' st1 of
                  (Inl e, st2) \<Rightarrow> (Inl (parseFailure e), st2)
                | (Inr content, st2) \<Rightarrow>
                    (case callYamlParse E content st2 of
                       (Inl e, st3) \<Rightarrow> (Inl (parseFailure e), st3)
                     | (Inr parsed, st3) \<Rightarrow>
                         (case rawIntentsOf parsed of
                            None \<Rightarrow> (Inr [], st3\<lparr>intentsCache := Some []\<rparr>)
                          | Some rawIntents \<Rightarrow>
                              (case normalizeAll (num E) rawIntents of
                                 Inl e \<Rightarrow> (Inl (parseFailure e), st3)
                               | Inr intents \<Rightarrow>
                                   (Inr intents, st3\<lparr>intentsCache := Some intents\<rparr>)))))))"

definition getIntent ::
  "('w, 'n) env \<Rightarrow> string \<Rightarrow> ('w, 'n) state
     \<Rightarrow> (js_error + 'n ActiveIntent option) \<times> ('w, 'n) state" where
  "getIntent E intentId st =
     (case loadIntents E st of
        (Inl e, st1) \<Rightarrow> (Inl e, st1)
      | (Inr intents, st1) \<Rightarrow> (Inr (find (\<lambda>intent. id' intent = intentId) intents), st1))"

definition setActiveIntent ::
  "('w, 'n) env \<Rightarrow> string \<Rightarrow> string \<Rightarrow> ('w, 'n) state \<Rightarrow> (js_error + unit) \<times> ('w, 'n) state" where
  "setActiveIntent E taskId intentId st =
     (case getIntent E intentId st of
        (Inl e, st1) \<Rightarrow> (Inl e, st1)
      | (Inr None, st1) \<Rightarrow> (Inl (JsError (''Intent '' @ intentId @ '' not found'')), st1)
      | (Inr (Some intent), st1) \<Rightarrow>
          (Inr (), st1\<lparr>activeIntentsByTask := (activeIntentsByTask st1)(taskId \<mapsto> intentId)\<rparr>))"

definition getActiveIntent ::
  "('w, 'n) env \<Rightarrow> string \<Rightarrow> ('w, 'n) state
     \<Rightarrow> (js_error + 'n ActiveIntent option) \<times> ('w, 'n) state" where
  "getActiveIntent E taskId st =
     (case activeIntentsByTask st taskId of
        None \<Rightarrow> (Inr None, st)
      | Some intentId \<Rightarrow> if intentId = [] then (Inr None, st) else getIntent E intentId st)"

definition clearActiveIntent :: "string \<Rightarrow> ('w, 'n) state \<Rightarrow> ('w, 'n) state" where
  "clearActiveIntent taskId st =
     st\<lparr>activeIntentsByTask := (activeIntentsByTask st)(taskId := None)\<rparr>"

definition invalidateCache :: "('w, 'n) state \<Rightarrow> ('w, 'n) state" where
  "invalidateCache st = st\<lparr>intentsCache := None\<rparr>"

section \<open>PreToolHook\<close>

text \<open>
  The operation request. The source reads the parameters \<open>path\<close>, \<open>file_path\<close> and
  \<open>patch\<close> as strings (\<open>as string\<close>), so the parameter bag is a map from names to
  strings; an absent parameter is \<open>None\<close>. Both hooks work on the manager that
  \<open>getIntentManager\<close> returns; its fields are the ones in the state.
\<close>

record ToolExecutionContext =
  toolName :: string
  toolParams :: "string \<rightharpoonup> string"
  taskId :: string
  workspacePath :: string
  activeIntentId :: "string option"

record PreHookResult =
  allowed :: bool
  error :: "string option"

definition DESTRUCTIVE_TOOLS :: "string set" where
  "DESTRUCTIVE_TOOLS =
     {''write_to_file'', ''execute_command'', ''edit'', ''search_and_replace'', ''edit_file'',
      ''search_replace'', ''apply_diff'', ''apply_patch''}"

text \<open>\<open>a || b\<close> on two possibly absent strings, and \<open>filePath ? [filePath] : []\<close>.\<close>

definition paramOr :: "string option \<Rightarrow> string option \<Rightarrow> string option" where
  "paramOr a b = (case a of Some s \<Rightarrow> if s \<noteq> [] then Some s else b | None \<Rightarrow> b)"

definition singlePath :: "string option \<Rightarrow> string list" where
  "singlePath filePath = (case filePath of Some s \<Rightarrow> if s \<noteq> [] then [s] else [] | None \<Rightarrow> [])"

text \<open>The loop over the hunks of a parsed patch, with \<open>paths\<close> as accumulator.\<close>

fun hunkPathsLoop :: "Hunk list \<Rightarrow> string list \<Rightarrow> string list" where
  "hunkPathsLoop [] paths = paths"
| "hunkPathsLoop (hunk # rest) paths =
     (case movePath hunk of
        Some m \<Rightarrow>
          if hunkType hunk = UpdateFile \<and> m \<noteq> []
          then hunkPathsLoop rest (paths @ [hunkPath hunk] @ [m])
          else hunkPathsLoop rest (paths @ [hunkPath hunk])
      | None \<Rightarrow> hunkPathsLoop rest (paths @ [hunkPath hunk]))"

definition extractPathsForScopeValidation ::
  "('w, 'n) env \<Rightarrow> ToolExecutionContext \<Rightarrow> js_error + string list" where
  "extractPathsForScopeValidation E context =
     (if toolName context = ''write_to_file'' \<or> toolName context = ''apply_diff'' then
        Inr (singlePath (paramOr (toolParams context ''path'') (toolParams context ''file_path'')))
      else if toolName context = ''edit'' \<or> toolName context = ''search_and_replace''
              \<or> toolName context = ''search_replace'' \<or> toolName context = ''edit_file'' then
        Inr (singlePath (paramOr (toolParams context ''file_path'') (toolParams context ''path'')))
      else if toolName context = ''apply_patch'' then
        (case toolParams context ''patch'' of
           None \<Rightarrow> Inr []
         | Some patch \<Rightarrow>
             if patch = [] then Inr []
             else (case parsePatch E patch of
                     Inl e \<Rightarrow> Inl e
                   | Inr hunks \<Rightarrow> Inr (hunkPathsLoop hunks [])))
      else Inr [])"

text \<open>The resolution of the active intent, written out in \<open>PreToolHook.run\<close> and as
  the method \<open>getActiveIntent\<close> of \<open>TracePostHook\<close>: the intent of a non-empty
  \<open>activeIntentId\<close> when it exists, else the intent bound to the task.\<close>

definition resolveActiveIntent ::
  "('w, 'n) env \<Rightarrow> ToolExecutionContext \<Rightarrow> ('w, 'n) state
     \<Rightarrow> (js_error + 'n ActiveIntent option) \<times> ('w, 'n) state" where
  "resolveActiveIntent E context st =
     (case activeIntentId context of
        None \<Rightarrow> getActiveIntent E (taskId context) st
      | Some intentId \<Rightarrow>
          if intentId = [] then getActiveIntent E (taskId context) st
          else (case getIntent E intentId st of
                  (Inl e, st1) \<Rightarrow> (Inl e, st1)
                | (Inr (Some intent), st1) \<Rightarrow> (Inr (Some intent), st1)
                | (Inr None, st1) \<Rightarrow> getActiveIntent E (taskId context) st1))"

definition noActiveIntentMessage :: "ToolExecutionContext \<Rightarrow> string" where
  "noActiveIntentMessage context =
     ''No active intent selected. Please use the select_active_intent tool to select an intent before performing ''
     @ toolName context @ '' operations.''"

definition executeCommandMessage :: "'n ActiveIntent \<Rightarrow> string" where
  "executeCommandMessage activeIntent =
     ''Scope Violation: Intent '' @ id' activeIntent @ '' ('' @ name activeIntent
     @ '') cannot authorize execute_command because command side effects cannot be validated against ownedScope. Use file-editing tools within scope instead.''"

definition invalidPayloadMessage :: "ToolExecutionContext \<Rightarrow> js_error \<Rightarrow> string" where
  "invalidPayloadMessage context e =
     ''Invalid '' @ toolName context @ '' payload for intent scope validation: ''
     @ errorMessage e"

definition scopeViolationMessage :: "'n ActiveIntent \<Rightarrow> string \<Rightarrow> string" where
  "scopeViolationMessage activeIntent filePath =
     ''Scope Violation: Intent '' @ id' activeIntent @ '' ('' @ name activeIntent
     @ '') is not authorized to edit '' @ filePath @ ''. Allowed scope: ''
     @ join '', '' (ownedScope activeIntent)"

text \<open>The loop over \<open>pathsToValidate\<close>: the first path out of scope ends it with a
  denial; when no path is left the operation is allowed.\<close>

fun validateLoop :: "('w, 'n) env \<Rightarrow> 'n ActiveIntent \<Rightarrow> string list \<Rightarrow> PreHookResult" where
  "validateLoop E activeIntent [] = \<lparr>allowed = True, error = None\<rparr>"
| "validateLoop E activeIntent (filePath # rest) =
     (if \<not> validatePath E filePath (ownedScope activeIntent)
      then \<lparr>allowed = False, error = Some (scopeViolationMessage activeIntent filePath)\<rparr>
      else validateLoop E activeIntent rest)"

definition PreToolHook_run ::
  "('w, 'n) env \<Rightarrow> ToolExecutionContext \<Rightarrow> ('w, 'n) state
     \<Rightarrow> (js_error + PreHookResult) \<times> ('w, 'n) state" where
  "PreToolHook_run E context st =
     (if toolName context \<notin> DESTRUCTIVE_TOOLS then (Inr \<lparr>allowed = True, error = None\<rparr>, st)
      else
        (case resolveActiveIntent E context st of
           (Inl e, st1) \<Rightarrow> (Inl e, st1)
         | (Inr None, st1) \<Rightarrow>
             (Inr \<lparr>allowed = False, error = Some (noActiveIntentMessage context)\<rparr>, st1)
         | (Inr (Some activeIntent), st1) \<Rightarrow>
             if toolName context = ''execute_command'' then
               (Inr \<lparr>allowed = False, error = Some (executeCommandMessage activeIntent)\<rparr>, st1)
             else
               (case extractPathsForScopeValidation E context of
                  Inl e \<Rightarrow>
                    (Inr \<lparr>allowed = False, error = Some (invalidPayloadMessage context e)\<rparr>, st1)
                | Inr pathsToValidate \<Rightarrow>
                    (Inr (validateLoop E activeIntent pathsToValidate), st1))))"

section \<open>TracePostHook\<close>

datatype MutationClass = CREATE | MODIFY

record TraceTarget =
  path :: string
  targetClass :: MutationClass

record TraceLogEntry =
  intentId :: string
  contentHash :: string
  filePath :: string
  mutationClass :: MutationClass
  timestamp :: string
  entryToolName :: string

record PostHookResult =
  success :: bool
  traceEntry :: "TraceLogEntry option"

definition singleTarget :: "string option \<Rightarrow> TraceTarget list" where
  "singleTarget fp =
     (case fp of
        Some s \<Rightarrow> if s \<noteq> [] then [\<lparr>path = s, targetClass = MODIFY\<rparr>] else []
      | None \<Rightarrow> [])"

fun hunkTargetsLoop :: "Hunk list \<Rightarrow> TraceTarget list \<Rightarrow> TraceTarget list" where
  "hunkTargetsLoop [] targets = targets"
| "hunkTargetsLoop (hunk # rest) targets =
     (let targets1 =
            (if hunkType hunk = AddFile
             then targets @ [\<lparr>path = hunkPath hunk, targetClass = CREATE\<rparr>]
             else targets @ [\<lparr>path = hunkPath hunk, targetClass = MODIFY\<rparr>])
      in case movePath hunk of
           Some m \<Rightarrow>
             if hunkType hunk = UpdateFile \<and> m \<noteq> []
             then hunkTargetsLoop rest (targets1 @ [\<lparr>path = m, targetClass = MODIFY\<rparr>])
             else hunkTargetsLoop rest targets1
         | None \<Rightarrow> hunkTargetsLoop rest targets1)"

definition extractTraceTargets ::
  "('w, 'n) env \<Rightarrow> ToolExecutionContext \<Rightarrow> js_error + TraceTarget list" where
  "extractTraceTargets E context =
     (if toolName context = ''write_to_file'' \<or> toolName context = ''apply_diff'' then
        Inr (singleTarget (paramOr (toolParams context ''path'') (toolParams context ''file_path'')))
      else if toolName context = ''edit'' \<or> toolName context = ''search_and_replace''
              \<or> toolName context = ''search_replace'' \<or> toolName context = ''edit_file'' then
        Inr (singleTarget (paramOr (toolParams context ''file_path'') (toolParams context ''path'')))
      else if toolName context = ''apply_patch'' then
        (case toolParams context ''patch'' of
           None \<Rightarrow> Inr []
         | Some patch \<Rightarrow>
             if patch = [] then Inr []
             else (case parsePatch E patch of
                     Inl e \<Rightarrow> Inl e
                   | Inr hunks \<Rightarrow> Inr (hunkTargetsLoop hunks [])))
      else Inr [])"

definition resolveAbsolutePath :: "('w, 'n) env \<Rightarrow> string \<Rightarrow> string \<Rightarrow> string" where
  "resolveAbsolutePath E workspace p = (if isAbsolute E p then p else pathResolve E workspace p)"

text \<open>\<open>computeContentHash\<close>: any failure of the read is caught and gives the empty
  string.\<close>

definition computeContentHash ::
  "('w, 'n) env \<Rightarrow> string \<Rightarrow> ('w, 'n) state \<Rightarrow> string \<times> ('w, 'n) state" where
  "computeContentHash E absolutePath st =
     (case callFsReadFile E absolutePath st of
        (Inl e, st1) \<Rightarrow> ([], st1)
      | (Inr contents, st1) \<Rightarrow> (sha256Hex E contents, st1))"

definition mutationClassName :: "MutationClass \<Rightarrow> string" where
  "mutationClassName c = (case c of CREATE \<Rightarrow> ''CREATE'' | MODIFY \<Rightarrow> ''MODIFY'')"

text \<open>The line appended to the trace log: \<open>JSON.stringify(entry)\<close> and a line feed.\<close>

definition entryLine :: "('w, 'n) env \<Rightarrow> TraceLogEntry \<Rightarrow> string" where
  "entryLine E entry =
     (case jsonStringify (num E)
             (JObj [(''intentId'', JStr (intentId entry)),
                    (''contentHash'', JStr (contentHash entry)),
                    (''filePath'', JStr (filePath entry)),
                    (''mutationClass'', JStr (mutationClassName (mutationClass entry))),
                    (''timestamp'', JStr (timestamp entry)),
                    (''toolName'', JStr (entryToolName entry))]) of
        Some s \<Rightarrow> s
      | None \<Rightarrow> ''undefined'') @ [CHR 0x0A]"

text \<open>The entry built for one target once its content hash is known.\<close>

definition makeEntry ::
  "('w, 'n) env \<Rightarrow> ToolExecutionContext \<Rightarrow> 'n ActiveIntent \<Rightarrow> TraceTarget \<Rightarrow> string
     \<Rightarrow> ('w, 'n) state \<Rightarrow> TraceLogEntry" where
  "makeEntry E context activeIntent target hash st =
     \<lparr>intentId = id' activeIntent,
      contentHash = hash,
      filePath = path target,
      mutationClass = targetClass target,
      timestamp = nowISOString E (world st),
      entryToolName = toolName context\<rparr>"

text \<open>The loop over the targets, with \<open>lastEntry\<close> as accumulator; a failure of the
  append leaves the loop and the hook with that error.\<close>

fun traceLoop ::
  "('w, 'n) env \<Rightarrow> ToolExecutionContext \<Rightarrow> 'n ActiveIntent \<Rightarrow> TraceTarget list
     \<Rightarrow> TraceLogEntry option \<Rightarrow> ('w, 'n) state
     \<Rightarrow> (js_error + TraceLogEntry option) \<times> ('w, 'n) state" where
  "traceLoop E context activeIntent [] lastEntry st = (Inr lastEntry, st)"
| "traceLoop E context activeIntent (target # rest) lastEntry st =
     (case computeContentHash E
             (resolveAbsolutePath E (workspacePath context) (path target)) st of
        (hash, st1) \<Rightarrow>
          (let entry = makeEntry E context activeIntent target hash st1 in
           case storageAppendFile E ''agent_trace.jsonl'' (entryLine E entry) st1 of
             (Inl e, st2) \<Rightarrow> (Inl e, st2)
           | (Inr u, st2) \<Rightarrow> traceLoop E context activeIntent rest (Some entry) st2))"

definition TracePostHook_run ::
  "('w, 'n) env \<Rightarrow> ToolExecutionContext \<Rightarrow> ('w, 'n) state
     \<Rightarrow> (js_error + PostHookResult) \<times> ('w, 'n) state" where
  "TracePostHook_run E context st =
     (if toolName context \<notin> DESTRUCTIVE_TOOLS
      then (Inr \<lparr>success = True, traceEntry = None\<rparr>, st)
      else
        (case resolveActiveIntent E context st of
           (Inl e, st1) \<Rightarrow> (Inl e, st1)
         | (Inr None, st1) \<Rightarrow> (Inr \<lparr>success = True, traceEntry = None\<rparr>, st1)
         | (Inr (Some activeIntent), st1) \<Rightarrow>
             (case extractTraceTargets E context of
                Inl e \<Rightarrow> (Inl e, st1)
              | Inr targets \<Rightarrow>
                  if length targets = 0 then (Inr \<lparr>success = True, traceEntry = None\<rparr>, st1)
                  else
                    (case traceLoop E context activeIntent targets None st1 of
                       (Inl e, st2) \<Rightarrow> (Inl e, st2)
                     | (Inr lastEntry, st2) \<Rightarrow>
                         (Inr \<lparr>success = True, traceEntry = lastEntry\<rparr>, st2)))))"

section \<open>Counting external calls\<close>

text \<open>The number of storage reads, of YAML parses and of appends in a record of calls.\<close>

definition readCount :: "call list \<Rightarrow> nat" where
  "readCount cs = length (filter (\<lambda>c. case c of CallReadFile f \<Rightarrow> True | _ \<Rightarrow> False) cs)"

definition parseCount :: "call list \<Rightarrow> nat" where
  "parseCount cs = length (filter (\<lambda>c. case c of CallYamlParse s \<Rightarrow> True | _ \<Rightarrow> False) cs)"

definition appendCount :: "call list \<Rightarrow> nat" where
  "appendCount cs =
     length (filter (\<lambda>c. case c of CallAppendFile f s \<Rightarrow> True | _ \<Rightarrow> False) cs)"

section \<open>A concrete environment\<close>

text \<open>
  Test doubles in the manner of the unit tests of the hooks: numbers are naturals printed in
  decimal, the world is a list of named files, the YAML and patch parsers know one document
  each, and the scope validator accepts a path that starts with a pattern without its final
  two stars. They instantiate the parameters at the concrete inputs below.
\<close>

fun decimal :: "nat \<Rightarrow> string" where
  "decimal n = (if n < 10 then [hexDigit n] else decimal (n div 10) @ [hexDigit (n mod 10)])"

definition testNum :: "nat numops" where
  "testNum = \<lparr>numTruthy = (\<lambda>n. n \<noteq> 0), numFinite = (\<lambda>n. True), numToString = decimal\<rparr>"

definition testYaml :: string where
  "testYaml = ''active_intents: [{id: INT-001, name: JWT, owned_scope: [src/**]}, {name: Draft}]''"

definition testDocument :: "nat jsval" where
  "testDocument =
     JObj [(''active_intents'',
        JArr [JObj [(''id'', JStr ''INT-001''), (''name'', JStr ''JWT''),
                    (''owned_scope'', JArr [JStr ''src/**''])],
              JObj [(''name'', JStr ''Draft'')]])]"

definition testPatch :: string where
  "testPatch =
     ''*** Begin Patch'' @ [CHR 0x0A] @
     ''*** Update File: src/a.ts'' @ [CHR 0x0A] @
     ''*** Move to: docs/a.ts'' @ [CHR 0x0A] @
     ''@@'' @ [CHR 0x0A] @ ''-old'' @ [CHR 0x0A] @ ''+new'' @ [CHR 0x0A] @
     ''*** Add File: src/b.ts'' @ [CHR 0x0A] @
     ''+export const x = 1'' @ [CHR 0x0A] @
     ''*** End Patch''"

definition testHunks :: "Hunk list" where
  "testHunks =
     [\<lparr>hunkType = UpdateFile, hunkPath = ''src/a.ts'', movePath = Some ''docs/a.ts''\<rparr>,
      \<lparr>hunkType = AddFile, hunkPath = ''src/b.ts'', movePath = None\<rparr>]"

definition lookupFile :: "(string \<times> string) list \<Rightarrow> string \<Rightarrow> js_error + string" where
  "lookupFile w f = (case map_of w f of Some c \<Rightarrow> Inr c | None \<Rightarrow> Inl (JsError ''ENOENT''))"

definition testEnv :: "((string \<times> string) list, nat) env" where
  "testEnv =
     \<lparr>num = testNum,
      fileExists = (\<lambda>f w. (Inr (map_of w f \<noteq> None), w)),
      readFile = (\<lambda>f w. (lookupFile w f, w)),
      writeFile = (\<lambda>f c w. (Inr (), (f, c) # w)),
      appendFile = (\<lambda>f c w.
        (Inr (), (f, (case map_of w f of Some old \<Rightarrow> old | None \<Rightarrow> []) @ c) # w)),
      yamlParse = (\<lambda>c. if c = testYaml then Inr testDocument else Inl (JsError ''bad document'')),
      parsePatch = (\<lambda>p. if p = testPatch then Inr testHunks else Inl (JsError ''bad patch'')),
      validatePath = (\<lambda>p scope.
        list_ex (\<lambda>pattern. prefix (butlast (butlast pattern)) p) scope),
      fsReadFile = (\<lambda>p w. (lookupFile w p, w)),
      sha256Hex = (\<lambda>c. ''sha256 of '' @ c),
      nowISOString = (\<lambda>w. ''2026-02-16T14:30:00.000Z''),
      isAbsolute = (\<lambda>p. case p of [] \<Rightarrow> False | c # cs \<Rightarrow> c = CHR ''/''),
      pathResolve = (\<lambda>workspace p. workspace @ ''/'' @ p)\<rparr>"

definition testIntent :: "nat ActiveIntent" where
  "testIntent =
     \<lparr>id' = ''INT-001'', name = ''JWT'', description = [], status = PENDING,
      ownedScope = [''src/**''], constraints = [], acceptanceCriteria = [],
      metadata = JObj []\<rparr>"

definition freshState :: "((string \<times> string) list, nat) state" where
  "freshState =
     \<lparr>intentsCache = None, activeIntentsByTask = Map.empty,
      world = [(''active_intents.yaml'', testYaml)], calls = []\<rparr>"

definition loadedState :: "((string \<times> string) list, nat) state" where
  "loadedState =
     \<lparr>intentsCache = Some [testIntent], activeIntentsByTask = [''task-1'' \<mapsto> ''INT-001''],
      world = [(''active_intents.yaml'', testYaml)], calls = []\<rparr>"

definition unboundState :: "((string \<times> string) list, nat) state" where
  "unboundState =
     \<lparr>intentsCache = Some [testIntent], activeIntentsByTask = Map.empty,
      world = [(''active_intents.yaml'', testYaml)], calls = []\<rparr>"

definition draftIntent :: "nat ActiveIntent" where
  "draftIntent =
     \<lparr>id' = [], name = ''Draft'', description = [], status = PENDING,
      ownedScope = [], constraints = [], acceptanceCriteria = [], metadata = JObj []\<rparr>"

definition writtenState :: "((string \<times> string) list, nat) state" where
  "writtenState =
     \<lparr>intentsCache = Some [testIntent], activeIntentsByTask = [''task-1'' \<mapsto> ''INT-001''],
      world = [(''/repo/src/x.ts'', ''export const x = 1''), (''active_intents.yaml'', testYaml)],
      calls = []\<rparr>"

definition rawEntry :: "nat jsval" where
  "rawEntry =
     JObj [(''id'', JStr ''INT-002''),
           (''status'', JStr ''done''),
           (''owned_scope'', JArr [JStr '' src/auth/** '', JStr ''  '', JNum 5, JNull]),
           (''constraints'',
              JArr [JObj [(''type'', JStr ''TECHNICAL''), (''rule'', JStr '' No external auth '')],
                    JObj [(''limit'', JNum 50)], JStr '' fast '', JNum 7]),
           (''acceptanceCriteria'', JArr [JStr ''Tests pass'', JBool True])]"

definition draftEntry :: "nat jsval" where
  "draftEntry = JObj [(''name'', JStr ''Draft'')]"

definition sharpEntry :: "nat jsval" where
  "sharpEntry = JObj [(''id'', JStr ''INT-003''), (''status'', JStr (''in_progre'' @ [CHR 0xDF]))]"

definition staleState :: "((string \<times> string) list, nat) state" where
  "staleState =
     \<lparr>intentsCache = Some [testIntent], activeIntentsByTask = [''task-1'' \<mapsto> ''INT-404''],
      world = [(''active_intents.yaml'', testYaml)], calls = []\<rparr>"

definition coldState :: "((string \<times> string) list, nat) state" where
  "coldState =
     \<lparr>intentsCache = None, activeIntentsByTask = [''task-1'' \<mapsto> ''INT-001''],
      world = [(''/repo/src/x.ts'', ''export const x = 1''), (''active_intents.yaml'', testYaml)],
      calls = []\<rparr>"


text \<open>A string between double quotes, for the JSON texts below.\<close>

definition quoted :: "string \<Rightarrow> string" where
  "quoted s = [CHR 0x22] @ s @ [CHR 0x22]"

definition testContext :: "string \<Rightarrow> (string \<times> string) list \<Rightarrow> ToolExecutionContext" where
  "testContext tool params =
     \<lparr>toolName = tool, toolParams = map_of params, taskId = ''task-1'',
      workspacePath = ''/repo'', activeIntentId = None\<rparr>"

section \<open>Properties of IntentManager\<close>

text \<open>
  Claim C10. \<open>invalidateCache\<close> clears the intent-definition cache only: in every state
  the map from task ids to active intent ids is the same before and after, so a task bound
  to an intent id stays bound to that id; the outside world and the record of external
  calls are untouched as well.
\<close>

theorem invalidateCache_keeps_bindings:
  "activeIntentsByTask (invalidateCache st) = activeIntentsByTask st
   \<and> activeIntentsByTask (invalidateCache st) task = activeIntentsByTask st task
   \<and> intentsCache (invalidateCache st) = None
   \<and> world (invalidateCache st) = world st
   \<and> calls (invalidateCache st) = calls st"
  by (simp add: invalidateCache_def)

subsection \<open>Auxiliary facts about normalization and loading\<close>

lemma trim_id:
  assumes "s \<noteq> []" "\<not> isWhiteSpace (hd s)" "\<not> isWhiteSpace (last s)"
  shows "trim s = s"
proof -
  have 1: "dropWhile isWhiteSpace s = s"
    using assms by (simp add: dropWhile_eq_self_iff)
  have 2: "dropWhile isWhiteSpace (rev s) = rev s"
    using assms by (simp add: dropWhile_eq_self_iff hd_rev)
  show ?thesis by (simp add: trim_def 1 2)
qed

lemma trim_ends:
  assumes "trim s \<noteq> []"
  shows "\<not> isWhiteSpace (hd (trim s)) \<and> \<not> isWhiteSpace (last (trim s))"
proof -
  define u where "u = dropWhile isWhiteSpace s"
  define v where "v = dropWhile isWhiteSpace (rev u)"
  have t: "trim s = rev v" by (simp add: trim_def u_def v_def)
  have v: "v \<noteq> []" using assms t by simp
  have u: "u \<noteq> []"
  proof
    assume "u = []"
    then have "v = []" by (simp add: v_def)
    with v show False ..
  qed
  have hv: "\<not> isWhiteSpace (hd v)" using v unfolding v_def by (rule hd_dropWhile)
  have hu: "\<not> isWhiteSpace (hd u)" using u unfolding u_def by (rule hd_dropWhile)
  have "rev u = takeWhile isWhiteSpace (rev u) @ v"
    by (simp add: v_def)
  then have "last (rev u) = last (takeWhile isWhiteSpace (rev u) @ v)" by simp
  also have "\<dots> = last v" using v by simp
  finally have lv: "last v = hd u" using u by (simp add: last_rev)
  show ?thesis using hv hu lv v by (simp add: t hd_rev last_rev)
qed

lemma trim_trim: "trim (trim s) = trim s"
proof (cases "trim s = []")
  case True
  have "trim [] = []" by (simp add: trim_def)
  with True show ?thesis by simp
next
  case False
  then show ?thesis using trim_ends [of s] by (simp add: trim_id)
qed

lemma sequenceE_Inr:
  "sequenceE rs = Inr xs \<Longrightarrow> rs = map Inr xs"
proof (induction rs arbitrary: xs)
  case Nil
  then show ?case by simp
next
  case (Cons r rs)
  then show ?case by (auto split: sum.splits)
qed

lemma sequenceE_all_Inr:
  "\<forall>r\<in>set rs. \<exists>x. r = Inr x \<Longrightarrow> \<exists>xs. sequenceE rs = Inr xs"
proof (induction rs)
  case Nil
  then show ?case by simp
next
  case (Cons r rs)
  then obtain x xs where "r = Inr x" "sequenceE rs = Inr xs" by auto
  then show ?case by simp
qed

lemma normalizeStringArray_elems:
  assumes "normalizeStringArray N v = Inr xs" and "x \<in> set xs"
  shows "x \<noteq> [] \<and> trim x = x"
proof (cases v)
  case (JArr items)
  with assms(1) obtain strings where "xs = filter (\<lambda>item. length item > 0) (map trim strings)"
    by (auto simp: normalizeStringArray_def split: sum.splits)
  with assms(2) show ?thesis by (auto simp: trim_trim)
qed (use assms in \<open>simp_all add: normalizeStringArray_def\<close>)

lemma convertible_jsString: "convertible v \<Longrightarrow> \<exists>s. jsString N v = Inr s"
proof (induction N v rule: jsString.induct)
  case (6 N xs)
  have "\<forall>r\<in>set (map (\<lambda>x. if x = JNull \<or> x = JUndefined then Inr [] else jsString N x) xs).
          \<exists>s. r = Inr s"
  proof
    fix r
    assume "r \<in> set (map (\<lambda>x. if x = JNull \<or> x = JUndefined then Inr [] else jsString N x) xs)"
    then obtain x where x: "x \<in> set xs"
      and r: "r = (if x = JNull \<or> x = JUndefined then Inr [] else jsString N x)" by auto
    from x "6.prems" have c: "convertible x" by (simp add: list_all_iff)
    show "\<exists>s. r = Inr s"
    proof (cases "x = JNull \<or> x = JUndefined")
      case True
      with r show ?thesis by simp
    next
      case False
      with "6.IH" [OF x] c r show ?thesis by auto
    qed
  qed
  from sequenceE_all_Inr [OF this] show ?case by auto
qed simp_all

lemma convertible_getProp: "convertible v \<Longrightarrow> convertible (getProp v k)"
proof (cases v)
  case (JObj kvs)
  assume c: "convertible v"
  show ?thesis
  proof (cases "map_of kvs k")
    case None
    then show ?thesis using JObj by simp
  next
    case (Some x)
    then have "(k, x) \<in> set kvs" by (rule map_of_SomeD)
    with c JObj have "convertible x" by (auto simp: list_all_iff)
    with Some JObj show ?thesis by simp
  qed
qed simp_all

lemma convertible_jsOr:
  "convertible a \<Longrightarrow> convertible b \<Longrightarrow> convertible (jsOr N a b)"
  by (simp add: jsOr_def)

lemma convertible_jsCoalesce:
  "convertible a \<Longrightarrow> convertible b \<Longrightarrow> convertible (jsCoalesce a b)"
  by (simp add: jsCoalesce_def)

lemma convertible_normalizeStringArray:
  assumes "convertible v"
  shows "\<exists>xs. normalizeStringArray N v = Inr xs"
proof (cases v)
  case (JArr items)
  have "\<forall>r\<in>set (map (\<lambda>item. case item of JStr s \<Rightarrow> Inr s
                      | _ \<Rightarrow> jsString N (jsCoalesce item (JStr []))) items). \<exists>s. r = Inr s"
  proof
    fix r
    assume "r \<in> set (map (\<lambda>item. case item of JStr s \<Rightarrow> Inr s
                      | _ \<Rightarrow> jsString N (jsCoalesce item (JStr []))) items)"
    then obtain item where i: "item \<in> set items"
      and r: "r = (case item of JStr s \<Rightarrow> Inr s | _ \<Rightarrow> jsString N (jsCoalesce item (JStr [])))"
      by auto
    from i assms JArr have "convertible item" by (simp add: list_all_iff)
    then have "convertible (jsCoalesce item (JStr []))" by (simp add: convertible_jsCoalesce)
    then obtain s where "jsString N (jsCoalesce item (JStr [])) = Inr s"
      using convertible_jsString by blast
    with r show "\<exists>s. r = Inr s" by (cases item) auto
  qed
  from sequenceE_all_Inr [OF this] obtain ss where
    "sequenceE (map (\<lambda>item. case item of JStr s \<Rightarrow> Inr s
                      | _ \<Rightarrow> jsString N (jsCoalesce item (JStr []))) items) = Inr ss" by blast
  with JArr show ?thesis by (simp add: normalizeStringArray_def)
qed (simp_all add: normalizeStringArray_def)

lemma jsonStringify_object_like:
  assumes "isObjectLike item" "jsonStringify N item = Some compact"
  shows "compact \<noteq> [] \<and> trim compact = compact"
proof -
  from assms have "compact \<noteq> [] \<and> \<not> isWhiteSpace (hd compact) \<and> \<not> isWhiteSpace (last compact)"
    by (cases item) (auto simp: isWhiteSpace_def)
  then show ?thesis by (simp add: trim_id)
qed

lemma constraintsLoop_step:
  "\<exists>piece. (\<forall>acc. constraintsLoop N (item # rest) acc = constraintsLoop N rest (acc @ piece))
      \<and> (\<forall>x\<in>set piece. x \<noteq> [] \<and> trim x = x)"
proof (cases "isObjectLike item")
  case True
  then obtain c where c: "jsonStringify N item = Some c"
    by (cases item) simp_all
  with True have good: "c \<noteq> [] \<and> trim c = c"
    by (rule jsonStringify_object_like)
  have notstr: "\<And>s. item \<noteq> JStr s" using True by auto
  have eq: "\<And>acc. constraintsLoop N (item # rest) acc =
      (case getProp item ''rule'' of
         JStr r \<Rightarrow> if length (trim r) > 0 then constraintsLoop N rest (acc @ [trim r])
                   else constraintsLoop N rest (acc @ [c])
       | _ \<Rightarrow> constraintsLoop N rest (acc @ [c]))"
    using True c good notstr
    by (cases item) (simp_all del: getProp.simps jsonStringify.simps cong: jsval.case_cong if_cong)
  show ?thesis
  proof (cases "getProp item ''rule''")
    case (JStr r)
    show ?thesis
    proof (cases "trim r = []")
      case True
      then show ?thesis using JStr good eq by (intro exI [of _ "[c]"]) simp
    next
      case False
      then show ?thesis using JStr eq by (intro exI [of _ "[trim r]"]) (simp add: trim_trim)
    qed
  qed (use good eq in \<open>(intro exI [of _ "[c]"], simp)+\<close>)
next
  case False
  show ?thesis
  proof (cases item)
    case (JStr s)
    show ?thesis
    proof (cases "trim s = []")
      case True
      then show ?thesis using JStr by (intro exI [of _ "[]"]) (simp add: Let_def)
    next
      case False
      then show ?thesis using JStr by (intro exI [of _ "[trim s]"]) (simp add: Let_def trim_trim)
    qed
  qed (use False in \<open>(intro exI [of _ "[]"], simp)+\<close>)
qed

lemma constraintsLoop_elems:
  assumes "\<forall>x\<in>set acc. x \<noteq> [] \<and> trim x = x"
  shows "\<forall>x\<in>set (constraintsLoop N items acc). x \<noteq> [] \<and> trim x = x"
  using assms
proof (induction items arbitrary: acc)
  case Nil
  then show ?case by simp
next
  case (Cons item rest)
  obtain piece where eq: "\<And>a. constraintsLoop N (item # rest) a = constraintsLoop N rest (a @ piece)"
    and good: "\<forall>x\<in>set piece. x \<noteq> [] \<and> trim x = x"
    using constraintsLoop_step [of N item rest] by blast
  have "\<forall>x\<in>set (acc @ piece). x \<noteq> [] \<and> trim x = x"
    using Cons.prems good by auto
  then have "\<forall>x\<in>set (constraintsLoop N rest (acc @ piece)). x \<noteq> [] \<and> trim x = x"
    by (rule Cons.IH)
  then show ?case unfolding eq .
qed

lemma normalizeConstraints_elems:
  "x \<in> set (normalizeConstraints N v) \<Longrightarrow> x \<noteq> [] \<and> trim x = x"
  using constraintsLoop_elems [of "[]" N]
  by (cases v) (auto simp: normalizeConstraints_def)

lemma own_toString_raises:
  "jsString N (JObj [(''toString'', JStr ''x'')]) = Inl notPrimitiveError"
  by simp

lemma statusOf_unrecognized:
  "u \<notin> {codeUnits ''PLANNED'', codeUnits ''PENDING'', codeUnits ''IN_PROGRESS'',
         codeUnits ''COMPLETED'', codeUnits ''BLOCKED''}
     \<Longrightarrow> statusOf u = PENDING"
  by (simp add: statusOf_def)

lemma statusOf_default: "statusOf (toUpperCase ''PENDING'') = PENDING"
  by code_simp

lemma normalizeIntent_Inr:
  assumes "normalizeIntent N raw = Inr i"
  obtains statusString where
    "jsString N (jsOr N (getProp raw ''status'') (JStr ''PENDING'')) = Inr statusString"
    "status i = statusOf (toUpperCase statusString)"
    "jsString N (jsOr N (getProp raw ''id'') (JStr [])) = Inr (id' i)"
    "normalizeStringArray N
       (jsCoalesce (getProp raw ''ownedScope'') (getProp raw ''owned_scope'')) = Inr (ownedScope i)"
    "constraints i = normalizeConstraints N (getProp raw ''constraints'')"
    "normalizeStringArray N
       (jsCoalesce (getProp raw ''acceptanceCriteria'') (getProp raw ''acceptance_criteria''))
         = Inr (acceptanceCriteria i)"
  using assms
  by (auto simp: normalizeIntent_def Let_def split: if_splits sum.splits)

lemma normalizeIntent_id:
  "normalizeIntent N raw = Inr i \<Longrightarrow>
     jsString N (jsOr N (getProp raw ''id'') (JStr [])) = Inr (id' i)"
  by (erule normalizeIntent_Inr)

lemma normalizeIntent_total:
  assumes "\<not> isNullish raw" and "convertible raw"
  shows "\<exists>i. normalizeIntent N raw = Inr i"
proof -
  have c: "\<And>k d. convertible (jsOr N (getProp raw k) (JStr d))"
    using assms(2) by (simp add: convertible_jsOr convertible_getProp)
  obtain s1 where s1: "jsString N (jsOr N (getProp raw ''status'') (JStr ''PENDING'')) = Inr s1"
    using convertible_jsString [OF c] by blast
  obtain s2 where s2: "jsString N (jsOr N (getProp raw ''id'') (JStr [])) = Inr s2"
    using convertible_jsString [OF c] by blast
  obtain s3 where s3: "jsString N (jsOr N (getProp raw ''name'') (JStr [])) = Inr s3"
    using convertible_jsString [OF c] by blast
  obtain s4 where s4: "jsString N (jsOr N (getProp raw ''description'') (JStr [])) = Inr s4"
    using convertible_jsString [OF c] by blast
  have d: "\<And>k k'. convertible (jsCoalesce (getProp raw k) (getProp raw k'))"
    using assms(2) by (simp add: convertible_jsCoalesce convertible_getProp)
  obtain a1 where a1: "normalizeStringArray N
       (jsCoalesce (getProp raw ''ownedScope'') (getProp raw ''owned_scope'')) = Inr a1"
    using convertible_normalizeStringArray [OF d] by blast
  obtain a2 where a2: "normalizeStringArray N
       (jsCoalesce (getProp raw ''acceptanceCriteria'') (getProp raw ''acceptance_criteria''))
         = Inr a2"
    using convertible_normalizeStringArray [OF d] by blast
  show ?thesis
    using assms(1) s1 s2 s3 s4 a1 a2 by (simp add: normalizeIntent_def Let_def)
qed

lemma freshState_loaded:
  "fst (loadIntents testEnv freshState) = Inr [testIntent, draftIntent]"
  by code_simp

lemma freshState_loaded_pair:
  "loadIntents testEnv freshState
     = (Inr [testIntent, draftIntent], snd (loadIntents testEnv freshState))"
  using freshState_loaded by (simp add: prod_eq_iff)

lemma normalizeAll_nth:
  "normalizeAll N raws = Inr is \<Longrightarrow>
     length is = length raws \<and> (\<forall>k<length raws. normalizeIntent N (raws ! k) = Inr (is ! k))"
proof (induction raws arbitrary: "is")
  case Nil
  then show ?case by simp
next
  case (Cons raw rest)
  then obtain i is' where i: "normalizeIntent N raw = Inr i"
    and r: "normalizeAll N rest = Inr is'" and e: "is = i # is'"
    by (auto split: sum.splits)
  from Cons.IH [OF r] have "length is' = length rest"
    and "\<forall>k<length rest. normalizeIntent N (rest ! k) = Inr (is' ! k)" by simp_all
  then show ?case using i e by (auto simp: nth_Cons split: nat.splits)
qed

lemma loadIntents_fresh:
  assumes "intentsCache st = None" and "loadIntents E st = (Inr is, st1)"
  shows "is = [] \<or> (\<exists>content parsed raws. yamlParse E content = Inr parsed
            \<and> rawIntentsOf parsed = Some raws \<and> normalizeAll (num E) raws = Inr is)"
  using assms
  by (auto simp: loadIntents_def callYamlParse_def
      split: prod.splits sum.splits bool.splits option.splits)

subsection \<open>The id of a loaded intent\<close>

text \<open>
  Claim C5, as stated, fails: an entry without \<open>id\<close> is normalized to an intent whose id
  is the empty string. The test document has two entries, the second with a name only; a
  fresh load returns both intents, and the id of the second is empty.
\<close>

theorem loadIntents_empty_id_counterexample:
  "fst (loadIntents testEnv freshState) = Inr [testIntent, draftIntent] \<and> id' draftIntent = []"
  using freshState_loaded by (simp add: draftIntent_def)

text \<open>
  Claim C5, amended. A fresh load that returns a non-empty sequence returns one intent per
  raw entry of the parsed document, in order, and the id of each is a string: it is
  \<open>String(raw.id || "")\<close>, which is the raw id itself when that is a string and the empty
  string when the raw entry has no id or a falsy one.
\<close>

theorem loadIntents_ids:
  assumes "intentsCache st = None" and "loadIntents E st = (Inr is, st1)"
  shows "is = [] \<or> (\<exists>content parsed raws. yamlParse E content = Inr parsed
            \<and> rawIntentsOf parsed = Some raws \<and> length is = length raws
            \<and> (\<forall>k<length raws.
                  jsString (num E) (jsOr (num E) (getProp (raws ! k) ''id'') (JStr []))
                    = Inr (id' (is ! k))
                  \<and> (\<forall>s. getProp (raws ! k) ''id'' = JStr s \<longrightarrow> id' (is ! k) = s)
                  \<and> (\<not> truthy (num E) (getProp (raws ! k) ''id'') \<longrightarrow> id' (is ! k) = [])))"
proof (cases "is = []")
  case True
  then show ?thesis by simp
next
  case False
  with loadIntents_fresh [OF assms] obtain content parsed raws
    where y: "yamlParse E content = Inr parsed" and r: "rawIntentsOf parsed = Some raws"
      and n: "normalizeAll (num E) raws = Inr is"
    by blast
  from normalizeAll_nth [OF n] have len: "length is = length raws"
    and nth: "\<forall>k<length raws. normalizeIntent (num E) (raws ! k) = Inr (is ! k)" by simp_all
  have "\<forall>k<length raws.
          jsString (num E) (jsOr (num E) (getProp (raws ! k) ''id'') (JStr [])) = Inr (id' (is ! k))
          \<and> (\<forall>s. getProp (raws ! k) ''id'' = JStr s \<longrightarrow> id' (is ! k) = s)
          \<and> (\<not> truthy (num E) (getProp (raws ! k) ''id'') \<longrightarrow> id' (is ! k) = [])"
  proof (intro allI impI)
    fix k assume "k < length raws"
    with nth have "normalizeIntent (num E) (raws ! k) = Inr (is ! k)" by simp
    then have "jsString (num E) (jsOr (num E) (getProp (raws ! k) ''id'') (JStr []))
        = Inr (id' (is ! k))"
      by (rule normalizeIntent_id)
    then show "jsString (num E) (jsOr (num E) (getProp (raws ! k) ''id'') (JStr []))
            = Inr (id' (is ! k))
          \<and> (\<forall>s. getProp (raws ! k) ''id'' = JStr s \<longrightarrow> id' (is ! k) = s)
          \<and> (\<not> truthy (num E) (getProp (raws ! k) ''id'') \<longrightarrow> id' (is ! k) = [])"
      by (auto simp: jsOr_def split: if_splits)
  qed
  with y r len show ?thesis by blast
qed

theorem loadIntents_ids_witness:
  "intentsCache freshState = None
   \<and> fst (loadIntents testEnv freshState) = Inr [testIntent, draftIntent]
   \<and> id' testIntent = ''INT-001'' \<and> id' draftIntent = []"
proof -
  have c: "intentsCache freshState = None" by (simp add: freshState_def)
  show ?thesis
    using loadIntents_ids [OF c freshState_loaded_pair] c freshState_loaded
    by (simp add: testIntent_def draftIntent_def)
qed


subsection \<open>Normalized fields\<close>

text \<open>
  Claim C6. Whenever a raw entry is normalized, the \<open>ownedScope\<close>, \<open>constraints\<close> and
  \<open>acceptanceCriteria\<close> of the intent are lists of non-empty strings that \<open>trim\<close> leaves
  unchanged; when the entry has no \<open>status\<close>, or has a status string whose upper-case form
  is none of the five status names, the status is \<open>PENDING\<close>. Every raw entry other than
  null and undefined in which no object has an own property \<open>toString\<close> is normalized.
\<close>

theorem normalizeIntent_fields:
  "(normalizeIntent N raw = Inr i \<longrightarrow>
       (\<forall>x\<in>set (ownedScope i). x \<noteq> [] \<and> trim x = x)
     \<and> (\<forall>x\<in>set (constraints i). x \<noteq> [] \<and> trim x = x)
     \<and> (\<forall>x\<in>set (acceptanceCriteria i). x \<noteq> [] \<and> trim x = x)
     \<and> (getProp raw ''status'' = JUndefined \<longrightarrow> status i = PENDING)
     \<and> (\<forall>s. getProp raw ''status'' = JStr s
           \<and> toUpperCase s \<notin> {codeUnits ''PLANNED'', codeUnits ''PENDING'',
                 codeUnits ''IN_PROGRESS'', codeUnits ''COMPLETED'', codeUnits ''BLOCKED''}
           \<longrightarrow> status i = PENDING))
   \<and> (\<not> isNullish raw \<and> convertible raw \<longrightarrow> (\<exists>j. normalizeIntent N raw = Inr j))"
proof (intro conjI impI ballI allI)
  assume n: "normalizeIntent N raw = Inr i"
  from n obtain statusString where
    ss: "jsString N (jsOr N (getProp raw ''status'') (JStr ''PENDING'')) = Inr statusString"
    and st: "status i = statusOf (toUpperCase statusString)"
    and os: "normalizeStringArray N
       (jsCoalesce (getProp raw ''ownedScope'') (getProp raw ''owned_scope'')) = Inr (ownedScope i)"
    and cs: "constraints i = normalizeConstraints N (getProp raw ''constraints'')"
    and ac: "normalizeStringArray N
       (jsCoalesce (getProp raw ''acceptanceCriteria'') (getProp raw ''acceptance_criteria''))
         = Inr (acceptanceCriteria i)"
    by (rule normalizeIntent_Inr)
  {
    fix x assume "x \<in> set (ownedScope i)"
    with normalizeStringArray_elems [OF os] show "x \<noteq> []" "trim x = x" by simp_all
  }
  {
    fix x assume "x \<in> set (constraints i)"
    then show "x \<noteq> []" "trim x = x" using normalizeConstraints_elems by (auto simp: cs)
  }
  {
    fix x assume "x \<in> set (acceptanceCriteria i)"
    with normalizeStringArray_elems [OF ac] show "x \<noteq> []" "trim x = x" by simp_all
  }
  {
    assume "getProp raw ''status'' = JUndefined"
    with ss have "statusString = ''PENDING''" by (simp add: jsOr_def)
    then show "status i = PENDING" using st by (simp add: statusOf_default)
  }
  {
    fix s
    assume a: "getProp raw ''status'' = JStr s
           \<and> toUpperCase s \<notin> {codeUnits ''PLANNED'', codeUnits ''PENDING'',
                 codeUnits ''IN_PROGRESS'', codeUnits ''COMPLETED'', codeUnits ''BLOCKED''}"
    show "status i = PENDING"
    proof (cases "s = []")
      case True
      with a ss have "statusString = ''PENDING''" by (simp add: jsOr_def)
      then show ?thesis using st by (simp add: statusOf_default)
    next
      case False
      with a ss have "statusString = s" by (simp add: jsOr_def)
      with a st statusOf_unrecognized show ?thesis by simp
    qed
  }
next
  assume "\<not> isNullish raw \<and> convertible raw"
  then show "\<exists>j. normalizeIntent N raw = Inr j" by (simp add: normalizeIntent_total)
qed

lemma rawEntry_normalized:
  "normalizeIntent testNum rawEntry =
       Inr \<lparr>id' = ''INT-002'', name = [], description = [], status = PENDING,
            ownedScope = [''src/auth/**'', ''5''],
            constraints = [''No external auth'', ''{'' @ quoted ''limit'' @ '':50}'', ''fast''],
            acceptanceCriteria = [''Tests pass'', ''true''],
            metadata = JObj []\<rparr>"
  by code_simp

lemma draftEntry_normalized: "normalizeIntent testNum draftEntry = Inr draftIntent"
  by code_simp

lemma sharpEntry_normalized:
  "normalizeIntent testNum sharpEntry =
       Inr \<lparr>id' = ''INT-003'', name = [], description = [], status = IN_PROGRESS,
            ownedScope = [], constraints = [], acceptanceCriteria = [], metadata = JObj []\<rparr>"
  by code_simp

theorem normalizeIntent_fields_witness:
  "\<not> isNullish rawEntry \<and> convertible rawEntry
   \<and> getProp rawEntry ''status'' = JStr ''done'' \<and> toUpperCase ''done'' = codeUnits ''DONE''
   \<and> normalizeIntent testNum rawEntry =
       Inr \<lparr>id' = ''INT-002'', name = [], description = [], status = PENDING,
            ownedScope = [''src/auth/**'', ''5''],
            constraints = [''No external auth'', ''{'' @ quoted ''limit'' @ '':50}'', ''fast''],
            acceptanceCriteria = [''Tests pass'', ''true''],
            metadata = JObj []\<rparr>
   \<and> \<not> isNullish draftEntry \<and> convertible draftEntry
   \<and> getProp draftEntry ''status'' = JUndefined
   \<and> normalizeIntent testNum draftEntry = Inr draftIntent
   \<and> status draftIntent = PENDING
   \<and> toUpperCase (''in_progre'' @ [CHR 0xDF]) = codeUnits ''IN_PROGRESS''
   \<and> normalizeIntent testNum sharpEntry =
       Inr \<lparr>id' = ''INT-003'', name = [], description = [], status = IN_PROGRESS,
            ownedScope = [], constraints = [], acceptanceCriteria = [], metadata = JObj []\<rparr>"
proof -
  have n: "\<not> isNullish rawEntry" "\<not> isNullish draftEntry"
    by (simp_all add: rawEntry_def draftEntry_def isNullish_def)
  have c: "convertible rawEntry" "convertible draftEntry"
    by code_simp+
  have g: "getProp rawEntry ''status'' = JStr ''done''" "toUpperCase ''done'' = codeUnits ''DONE''"
    "getProp draftEntry ''status'' = JUndefined"
    "toUpperCase (''in_progre'' @ [CHR 0xDF]) = codeUnits ''IN_PROGRESS''"
    by code_simp+
  have d: "status draftIntent = PENDING" by (simp add: draftIntent_def)
  show ?thesis
    using normalizeIntent_fields [of testNum rawEntry]
      normalizeIntent_fields [of testNum draftEntry]
      n c g d rawEntry_normalized draftEntry_normalized sharpEntry_normalized
    by simp
qed

subsection \<open>The cache\<close>

text \<open>
  Claim C7. When \<open>loadIntents\<close> has returned a sequence, a second call with no
  \<open>invalidateCache\<close> in between returns the same sequence and leaves the state, and with it
  the record of external calls, as it is: it is served from the cache. Over both calls the
  storage is read at most once and the document parsed at most once; a first call that
  found the cache empty made exactly the calls of one load.
\<close>

theorem loadIntents_cached:
  assumes "loadIntents E st = (Inr is, st1)"
  shows "loadIntents E st1 = (Inr is, st1)
     \<and> intentsCache st1 = Some is
     \<and> calls (snd (loadIntents E st1)) = calls st1
     \<and> readCount (calls (snd (loadIntents E st1))) \<le> readCount (calls st) + 1
     \<and> parseCount (calls (snd (loadIntents E st1))) \<le> parseCount (calls st) + 1
     \<and> (intentsCache st = None \<longrightarrow>
          (\<exists>content. calls st1 = calls st @ [CallFileExists ''active_intents.yaml'',
                 CallReadFile ''active_intents.yaml'', CallYamlParse content])
          \<or> calls st1 = calls st @ [CallFileExists ''active_intents.yaml'',
                 CallWriteFile ''active_intents.yaml'' defaultContent])"
proof -
  have cache: "intentsCache st1 = Some is"
    using assms
    by (auto simp: loadIntents_def callYamlParse_def
        split: prod.splits sum.splits bool.splits option.splits)
  then have again: "loadIntents E st1 = (Inr is, st1)"
    by (simp add: loadIntents_def)
  have log: "(intentsCache st \<noteq> None \<and> calls st1 = calls st)
     \<or> (\<exists>content. calls st1 = calls st @ [CallFileExists ''active_intents.yaml'',
                 CallReadFile ''active_intents.yaml'', CallYamlParse content])
     \<or> calls st1 = calls st @ [CallFileExists ''active_intents.yaml'',
                 CallWriteFile ''active_intents.yaml'' defaultContent]"
    using assms
    by (auto simp: loadIntents_def callYamlParse_def storageFileExists_def storageReadFile_def
        initializeIntentsFile_def storageWriteFile_def
        split: prod.splits sum.splits bool.splits option.splits)
  then have counts: "readCount (calls st1) \<le> readCount (calls st) + 1
     \<and> parseCount (calls st1) \<le> parseCount (calls st) + 1"
    by (auto simp: readCount_def parseCount_def)
  show ?thesis using cache again log counts by auto
qed

theorem loadIntents_cached_witness:
  "fst (loadIntents testEnv freshState) = Inr [testIntent, draftIntent]
   \<and> fst (loadIntents testEnv (snd (loadIntents testEnv freshState)))
       = Inr [testIntent, draftIntent]
   \<and> calls (snd (loadIntents testEnv (snd (loadIntents testEnv freshState))))
       = [CallFileExists ''active_intents.yaml'', CallReadFile ''active_intents.yaml'',
          CallYamlParse testYaml]"
proof -
  have c: "calls (snd (loadIntents testEnv freshState))
       = [CallFileExists ''active_intents.yaml'', CallReadFile ''active_intents.yaml'',
          CallYamlParse testYaml]"
    by code_simp
  show ?thesis
    using loadIntents_cached [OF freshState_loaded_pair] freshState_loaded c by simp
qed

section \<open>Properties of PreToolHook\<close>

subsection \<open>Auxiliary facts\<close>





lemma resolve_loadedState:
  "resolveActiveIntent testEnv (testContext tool ps) loadedState
      = (Inr (Some testIntent), loadedState)"
  by (simp add: resolveActiveIntent_def testContext_def getActiveIntent_def getIntent_def
        loadIntents_def loadedState_def testIntent_def)

lemma resolve_unboundState:
  "resolveActiveIntent testEnv (testContext tool ps) unboundState = (Inr None, unboundState)"
  by (simp add: resolveActiveIntent_def testContext_def getActiveIntent_def unboundState_def)

lemma storage_validatePath:
  "storageFileExists (E\<lparr>validatePath := v\<rparr>) = storageFileExists E"
  "storageReadFile (E\<lparr>validatePath := v\<rparr>) = storageReadFile E"
  "callYamlParse (E\<lparr>validatePath := v\<rparr>) = callYamlParse E"
  "initializeIntentsFile (E\<lparr>validatePath := v\<rparr>) = initializeIntentsFile E"
  by (simp_all add: fun_eq_iff storageFileExists_def storageReadFile_def callYamlParse_def
      initializeIntentsFile_def storageWriteFile_def)

lemma loadIntents_validatePath:
  "loadIntents (E\<lparr>validatePath := v\<rparr>) = loadIntents E"
  by (simp add: fun_eq_iff loadIntents_def storage_validatePath
      cong: option.case_cong prod.case_cong sum.case_cong bool.case_cong)

lemma getIntent_validatePath:
  "getIntent (E\<lparr>validatePath := v\<rparr>) = getIntent E"
  by (simp add: fun_eq_iff getIntent_def loadIntents_validatePath)

lemma getActiveIntent_validatePath:
  "getActiveIntent (E\<lparr>validatePath := v\<rparr>) = getActiveIntent E"
  by (simp add: fun_eq_iff getActiveIntent_def getIntent_validatePath
      cong: option.case_cong if_cong)

lemma resolveActiveIntent_validatePath:
  "resolveActiveIntent (E\<lparr>validatePath := v\<rparr>) ctx st = resolveActiveIntent E ctx st"
  by (simp add: resolveActiveIntent_def getActiveIntent_validatePath getIntent_validatePath
      cong: option.case_cong if_cong prod.case_cong sum.case_cong)

lemma resolveActiveIntent_params:
  "resolveActiveIntent E (ctx\<lparr>toolParams := params\<rparr>) st = resolveActiveIntent E ctx st"
  by (simp add: resolveActiveIntent_def
      cong: option.case_cong if_cong prod.case_cong sum.case_cong)

lemma extractPaths_validatePath:
  "extractPathsForScopeValidation (E\<lparr>validatePath := v\<rparr>) ctx
     = extractPathsForScopeValidation E ctx"
  by (simp add: extractPathsForScopeValidation_def cong: option.case_cong if_cong)

subsection \<open>The scope gate\<close>



subsection \<open>Command execution\<close>

text \<open>
  Claim C2. When the tool is \<open>execute_command\<close> and an active intent resolves,
  \<open>PreToolHook.run\<close> returns \<open>allowed: false\<close> with the message about
  \<open>execute_command\<close>, and it returns the same with any other parameter bag in the
  request.
\<close>

theorem execute_command_denied:
  assumes "toolName ctx = ''execute_command''"
    and "resolveActiveIntent E ctx st = (Inr (Some i), st1)"
  shows "PreToolHook_run E ctx st =
           (Inr \<lparr>allowed = False, error = Some (executeCommandMessage i)\<rparr>, st1)
         \<and> (\<forall>params. PreToolHook_run E (ctx\<lparr>toolParams := params\<rparr>) st =
           (Inr \<lparr>allowed = False, error = Some (executeCommandMessage i)\<rparr>, st1))"
  using assms by (simp add: PreToolHook_run_def DESTRUCTIVE_TOOLS_def resolveActiveIntent_params)

theorem execute_command_denied_witness:
  "PreToolHook_run testEnv (testContext ''execute_command'' [(''command'', ''echo hi > README.md'')])
       loadedState =
     (Inr \<lparr>allowed = False, error = Some (executeCommandMessage testIntent)\<rparr>, loadedState)"
proof -
  have t: "toolName (testContext ''execute_command'' [(''command'', ''echo hi > README.md'')])
      = ''execute_command''"
    by (simp add: testContext_def)
  show ?thesis
    using execute_command_denied [OF t resolve_loadedState] by simp
qed

subsection \<open>No active intent, and kinds that do not mutate\<close>

lemma getIntent_cached:
  "intentsCache st = Some is \<Longrightarrow>
     getIntent E x st = (Inr (find (\<lambda>intent. id' intent = x) is), st)"
  by (simp add: getIntent_def loadIntents_def)

lemma getActiveIntent_cached:
  "intentsCache st = Some is \<Longrightarrow>
     getActiveIntent E task st =
       (Inr (case activeIntentsByTask st task of
               None \<Rightarrow> None
             | Some b \<Rightarrow> if b = [] then None else find (\<lambda>intent. id' intent = b) is), st)"
  by (simp add: getActiveIntent_def getIntent_cached split: option.splits)

text \<open>
  Claim C3. For a mutation-capable tool, \<open>PreToolHook.run\<close> returns \<open>allowed: false\<close> with
  the message that starts with \<open>No active intent selected\<close> when neither lookup gives an
  intent: a supplied intent id for which \<open>getIntent\<close> returns null, followed by a task for
  which \<open>getActiveIntent\<close> returns null; or no supplied id (absent or empty) and a task for
  which \<open>getActiveIntent\<close> returns null. With cached definitions this is the case when no
  cached intent has the supplied id and the task is unbound or bound to an id that no
  cached intent has; the state is then unchanged. For a tool that is not mutation-capable
  it returns \<open>allowed: true\<close> in every state, and leaves the state as it is.
\<close>

theorem no_active_intent_gate:
  "(toolName ctx \<in> DESTRUCTIVE_TOOLS \<and> activeIntentId ctx = Some x \<and> x \<noteq> []
      \<and> getIntent E x st = (Inr None, st0)
      \<and> getActiveIntent E (taskId ctx) st0 = (Inr None, st1) \<longrightarrow>
        PreToolHook_run E ctx st =
          (Inr \<lparr>allowed = False, error = Some (noActiveIntentMessage ctx)\<rparr>, st1))
   \<and> (toolName c \<in> DESTRUCTIVE_TOOLS
      \<and> (activeIntentId c = None \<or> activeIntentId c = Some [])
      \<and> getActiveIntent E (taskId c) s = (Inr None, s1) \<longrightarrow>
        PreToolHook_run E c s =
          (Inr \<lparr>allowed = False, error = Some (noActiveIntentMessage c)\<rparr>, s1))
   \<and> (toolName d \<in> DESTRUCTIVE_TOOLS \<and> intentsCache t = Some cached
      \<and> (\<forall>y. activeIntentId d = Some y \<longrightarrow> find (\<lambda>intent. id' intent = y) cached = None)
      \<and> (\<forall>b. activeIntentsByTask t (taskId d) = Some b \<longrightarrow>
             find (\<lambda>intent. id' intent = b) cached = None) \<longrightarrow>
        PreToolHook_run E d t =
          (Inr \<lparr>allowed = False, error = Some (noActiveIntentMessage d)\<rparr>, t))
   \<and> prefix ''No active intent selected'' (noActiveIntentMessage c)
   \<and> (toolName ctx' \<notin> DESTRUCTIVE_TOOLS \<longrightarrow>
        PreToolHook_run E' ctx' st' = (Inr \<lparr>allowed = True, error = None\<rparr>, st'))"
proof (intro conjI impI)
  assume "toolName ctx \<in> DESTRUCTIVE_TOOLS \<and> activeIntentId ctx = Some x \<and> x \<noteq> []
      \<and> getIntent E x st = (Inr None, st0)
      \<and> getActiveIntent E (taskId ctx) st0 = (Inr None, st1)"
  then show "PreToolHook_run E ctx st =
          (Inr \<lparr>allowed = False, error = Some (noActiveIntentMessage ctx)\<rparr>, st1)"
    by (simp add: PreToolHook_run_def resolveActiveIntent_def)
next
  assume "toolName c \<in> DESTRUCTIVE_TOOLS
      \<and> (activeIntentId c = None \<or> activeIntentId c = Some [])
      \<and> getActiveIntent E (taskId c) s = (Inr None, s1)"
  then show "PreToolHook_run E c s =
          (Inr \<lparr>allowed = False, error = Some (noActiveIntentMessage c)\<rparr>, s1)"
    by (auto simp: PreToolHook_run_def resolveActiveIntent_def)
next
  assume a: "toolName d \<in> DESTRUCTIVE_TOOLS \<and> intentsCache t = Some cached
      \<and> (\<forall>y. activeIntentId d = Some y \<longrightarrow> find (\<lambda>intent. id' intent = y) cached = None)
      \<and> (\<forall>b. activeIntentsByTask t (taskId d) = Some b \<longrightarrow>
             find (\<lambda>intent. id' intent = b) cached = None)"
  then have c: "intentsCache t = Some cached" by simp
  have g: "getActiveIntent E (taskId d) t = (Inr None, t)"
    using a by (auto simp: getActiveIntent_cached [OF c] split: option.splits)
  have "resolveActiveIntent E d t = (Inr None, t)"
    using a g by (auto simp: resolveActiveIntent_def getIntent_cached [OF c] split: option.splits)
  with a show "PreToolHook_run E d t =
          (Inr \<lparr>allowed = False, error = Some (noActiveIntentMessage d)\<rparr>, t)"
    by (simp add: PreToolHook_run_def)
next
  show "prefix ''No active intent selected'' (noActiveIntentMessage c)"
    by (simp add: noActiveIntentMessage_def)
next
  assume "toolName ctx' \<notin> DESTRUCTIVE_TOOLS"
  then show "PreToolHook_run E' ctx' st' = (Inr \<lparr>allowed = True, error = None\<rparr>, st')"
    by (simp add: PreToolHook_run_def)
qed

theorem no_active_intent_gate_witness:
  "getIntent testEnv ''INT-404'' unboundState = (Inr None, unboundState)
   \<and> getActiveIntent testEnv ''task-1'' unboundState = (Inr None, unboundState)
   \<and> PreToolHook_run testEnv
        ((testContext ''apply_diff'' [(''path'', ''src/x.ts'')])\<lparr>activeIntentId := Some ''INT-404''\<rparr>)
        unboundState =
      (Inr \<lparr>allowed = False,
            error = Some (''No active intent selected. Please use the select_active_intent tool to select an intent before performing apply_diff operations.'')\<rparr>,
       unboundState)
   \<and> getActiveIntent testEnv ''task-1'' staleState = (Inr None, staleState)
   \<and> PreToolHook_run testEnv (testContext ''edit'' [(''file_path'', ''src/x.ts'')]) staleState =
      (Inr \<lparr>allowed = False,
            error = Some (''No active intent selected. Please use the select_active_intent tool to select an intent before performing edit operations.'')\<rparr>,
       staleState)
   \<and> PreToolHook_run testEnv
        ((testContext ''write_to_file'' [(''path'', ''src/x.ts'')])\<lparr>activeIntentId := Some ''INT-404''\<rparr>)
        staleState =
      (Inr \<lparr>allowed = False,
            error = Some (''No active intent selected. Please use the select_active_intent tool to select an intent before performing write_to_file operations.'')\<rparr>,
       staleState)
   \<and> PreToolHook_run testEnv (testContext ''read_file'' [(''path'', ''src/x.ts'')]) freshState =
     (Inr \<lparr>allowed = True, error = None\<rparr>, freshState)"
proof -
  let ?c1 = "(testContext ''apply_diff'' [(''path'', ''src/x.ts'')])\<lparr>activeIntentId := Some ''INT-404''\<rparr>"
  let ?c2 = "testContext ''edit'' [(''file_path'', ''src/x.ts'')]"
  let ?c3 = "(testContext ''write_to_file'' [(''path'', ''src/x.ts'')])\<lparr>activeIntentId := Some ''INT-404''\<rparr>"
  let ?c4 = "testContext ''read_file'' [(''path'', ''src/x.ts'')]"
  have cu: "intentsCache unboundState = Some [testIntent]"
    and cs: "intentsCache staleState = Some [testIntent]"
    by (simp_all add: unboundState_def staleState_def)
  have g1: "getIntent testEnv ''INT-404'' unboundState = (Inr None, unboundState)"
    by (simp add: getIntent_cached [OF cu] testIntent_def)
  have g2: "getActiveIntent testEnv ''task-1'' unboundState = (Inr None, unboundState)"
    by (simp add: getActiveIntent_cached [OF cu]) (simp add: unboundState_def)
  have g3: "getActiveIntent testEnv ''task-1'' staleState = (Inr None, staleState)"
    by (simp add: getActiveIntent_cached [OF cs]) (simp add: staleState_def testIntent_def)
  have f: "find (\<lambda>intent. id' intent = ''INT-404'') [testIntent] = None"
    by (simp add: testIntent_def)
  have b: "activeIntentsByTask staleState ''task-1'' = Some ''INT-404''"
    by (simp add: staleState_def)
  have t: "toolName ?c1 \<in> DESTRUCTIVE_TOOLS" "toolName ?c2 \<in> DESTRUCTIVE_TOOLS"
    "toolName ?c3 \<in> DESTRUCTIVE_TOOLS" "toolName ?c4 \<notin> DESTRUCTIVE_TOOLS"
    by (simp_all add: testContext_def DESTRUCTIVE_TOOLS_def)
  have k: "taskId ?c1 = ''task-1''" "taskId ?c2 = ''task-1''" "taskId ?c3 = ''task-1''"
    "activeIntentId ?c1 = Some ''INT-404''" "activeIntentId ?c2 = None"
    "activeIntentId ?c3 = Some ''INT-404''"
    by (simp_all add: testContext_def)
  have m: "noActiveIntentMessage ?c1 = ''No active intent selected. Please use the select_active_intent tool to select an intent before performing apply_diff operations.''"
    "noActiveIntentMessage ?c2 = ''No active intent selected. Please use the select_active_intent tool to select an intent before performing edit operations.''"
    "noActiveIntentMessage ?c3 = ''No active intent selected. Please use the select_active_intent tool to select an intent before performing write_to_file operations.''"
    by (simp_all add: noActiveIntentMessage_def testContext_def)
  note w = no_active_intent_gate [where ctx = ?c1 and x = "''INT-404''" and E = testEnv
      and st = unboundState and ?st0.0 = unboundState and ?st1.0 = unboundState
      and c = ?c2 and s = staleState and ?s1.0 = staleState
      and d = ?c3 and t = staleState and cached = "[testIntent]"
      and ctx' = ?c4 and E' = testEnv and st' = freshState]
  show ?thesis
    using w g1 g2 g3 f b t k m cs by simp
qed

subsection \<open>No target path\<close>

text \<open>
  Claim C4. For a mutation-capable tool other than \<open>execute_command\<close> with an active intent,
  when the extraction gives no path, \<open>PreToolHook.run\<close> returns \<open>allowed: true\<close>, and it
  does so with any scope validator in place of the given one: the validator is not consulted.
  The extraction gives no path for \<open>write_to_file\<close>, \<open>edit\<close> and \<open>apply_diff\<close> without
  \<open>path\<close> and \<open>file_path\<close>, and for \<open>apply_patch\<close> without \<open>patch\<close>.
\<close>

theorem no_paths_allowed:
  "(toolName ctx \<in> DESTRUCTIVE_TOOLS \<and> toolName ctx \<noteq> ''execute_command''
      \<and> resolveActiveIntent E ctx st = (Inr (Some i), st1)
      \<and> extractPathsForScopeValidation E ctx = Inr [] \<longrightarrow>
        PreToolHook_run E ctx st = (Inr \<lparr>allowed = True, error = None\<rparr>, st1)
        \<and> (\<forall>v. PreToolHook_run (E\<lparr>validatePath := v\<rparr>) ctx st
                 = (Inr \<lparr>allowed = True, error = None\<rparr>, st1)))
   \<and> (toolName c \<in> {''write_to_file'', ''edit'', ''apply_diff''}
        \<and> toolParams c ''path'' = None \<and> toolParams c ''file_path'' = None \<longrightarrow>
          extractPathsForScopeValidation E c = Inr [])
   \<and> (toolName c' = ''apply_patch'' \<and> toolParams c' ''patch'' = None \<longrightarrow>
          extractPathsForScopeValidation E c' = Inr [])"
proof (intro conjI impI)
  assume a: "toolName ctx \<in> DESTRUCTIVE_TOOLS \<and> toolName ctx \<noteq> ''execute_command''
      \<and> resolveActiveIntent E ctx st = (Inr (Some i), st1)
      \<and> extractPathsForScopeValidation E ctx = Inr []"
  then show "PreToolHook_run E ctx st = (Inr \<lparr>allowed = True, error = None\<rparr>, st1)"
    by (simp add: PreToolHook_run_def)
  from a show "\<forall>v. PreToolHook_run (E\<lparr>validatePath := v\<rparr>) ctx st
                 = (Inr \<lparr>allowed = True, error = None\<rparr>, st1)"
    by (simp add: PreToolHook_run_def resolveActiveIntent_validatePath
        extractPaths_validatePath)
next
  assume "toolName c \<in> {''write_to_file'', ''edit'', ''apply_diff''}
        \<and> toolParams c ''path'' = None \<and> toolParams c ''file_path'' = None"
  then show "extractPathsForScopeValidation E c = Inr []"
    by (auto simp add: extractPathsForScopeValidation_def paramOr_def singlePath_def)
next
  assume "toolName c' = ''apply_patch'' \<and> toolParams c' ''patch'' = None"
  then show "extractPathsForScopeValidation E c' = Inr []"
    by (simp add: extractPathsForScopeValidation_def)
qed

theorem no_paths_allowed_witness:
  "PreToolHook_run testEnv (testContext ''write_to_file'' [(''content'', ''x'')]) loadedState
      = (Inr \<lparr>allowed = True, error = None\<rparr>, loadedState)
   \<and> extractPathsForScopeValidation testEnv (testContext ''write_to_file'' [(''content'', ''x'')])
      = Inr []
   \<and> extractPathsForScopeValidation testEnv (testContext ''apply_patch'' []) = Inr []"
proof -
  let ?c = "testContext ''write_to_file'' [(''content'', ''x'')]"
  have t: "toolName ?c = ''write_to_file''"
     "toolParams ?c ''path'' = None" "toolParams ?c ''file_path'' = None"
     "toolName (testContext ''apply_patch'' []) = ''apply_patch''"
     "toolParams (testContext ''apply_patch'' []) ''patch'' = None"
    by (simp_all add: testContext_def)
  show ?thesis
    using no_paths_allowed [of ?c testEnv loadedState testIntent loadedState ?c
        "testContext ''apply_patch'' []"] resolve_loadedState
    by (simp add: t DESTRUCTIVE_TOOLS_def)
qed

section \<open>Properties of TracePostHook\<close>


lemma write_to_file_destructive: "''write_to_file'' \<in> DESTRUCTIVE_TOOLS"
  by (simp add: DESTRUCTIVE_TOOLS_def)

lemma quote_keys:
  "quoteJSONString ''intentId'' = quoted ''intentId''"
  "quoteJSONString ''contentHash'' = quoted ''contentHash''"
  "quoteJSONString ''filePath'' = quoted ''filePath''"
  "quoteJSONString ''mutationClass'' = quoted ''mutationClass''"
  "quoteJSONString ''timestamp'' = quoted ''timestamp''"
  "quoteJSONString ''toolName'' = quoted ''toolName''"
  "quoteJSONString (mutationClassName c) = quoted (mutationClassName c)"
  by (cases c; simp add: quoteJSONString_def quoteChar_def quoted_def mutationClassName_def)+

lemma entryLine_text:
  "entryLine E en =
     ''{'' @ quoted ''intentId'' @ '':'' @ quoteJSONString (intentId en) @ '','' @
     quoted ''contentHash'' @ '':'' @ quoteJSONString (contentHash en) @ '','' @
     quoted ''filePath'' @ '':'' @ quoteJSONString (filePath en) @ '','' @
     quoted ''mutationClass'' @ '':'' @ quoted (mutationClassName (mutationClass en)) @ '','' @
     quoted ''timestamp'' @ '':'' @ quoteJSONString (timestamp en) @ '','' @
     quoted ''toolName'' @ '':'' @ quoteJSONString (entryToolName en) @ ''}'' @ [CHR 0x0A]"
  unfolding entryLine_def by (simp add: quote_keys)

lemma loadIntents_appendCount:
  "loadIntents E st = (r, st1) \<Longrightarrow> appendCount (calls st1) = appendCount (calls st)"
  by (auto simp: loadIntents_def callYamlParse_def storageFileExists_def storageReadFile_def
        initializeIntentsFile_def storageWriteFile_def appendCount_def
        split: prod.splits sum.splits bool.splits option.splits)

lemma getIntent_appendCount:
  "getIntent E x st = (r, st1) \<Longrightarrow> appendCount (calls st1) = appendCount (calls st)"
  by (auto simp: getIntent_def split: prod.splits sum.splits dest: loadIntents_appendCount)

lemma getActiveIntent_appendCount:
  "getActiveIntent E task st = (r, st1) \<Longrightarrow> appendCount (calls st1) = appendCount (calls st)"
  by (auto simp: getActiveIntent_def split: option.splits if_splits dest: getIntent_appendCount)

lemma resolveActiveIntent_appendCount:
  "resolveActiveIntent E ctx st = (r, st1) \<Longrightarrow> appendCount (calls st1) = appendCount (calls st)"
  by (auto simp: resolveActiveIntent_def
      split: option.splits if_splits prod.splits sum.splits
      dest: getIntent_appendCount getActiveIntent_appendCount)
    (metis getIntent_appendCount getActiveIntent_appendCount)

lemma computeContentHash_eq:
  "fsReadFile E p (world st) = (r, w) \<Longrightarrow>
     computeContentHash E p st =
       ((case r of Inl e \<Rightarrow> [] | Inr contents \<Rightarrow> sha256Hex E contents),
        st\<lparr>world := w, calls := calls st @ [CallFsReadFile p r]\<rparr>)"
  by (simp add: computeContentHash_def callFsReadFile_def split: sum.splits)


subsection \<open>A whole-file write\<close>

text \<open>
  Claim C8. For \<open>write_to_file\<close> with a non-empty path \<open>p\<close> and an active intent,
  \<open>TracePostHook.run\<close> reads the file once and calls the append of the trace log exactly
  once: counted from the state in which the hook is entered there is one append more, and
  after the calls of the intent resolution the hook makes the read and then the append of
  the JSON line of the entry for \<open>p\<close>, written out below, whose mutation class is
  \<open>MODIFY\<close> and whose tool name is \<open>write_to_file\<close>, hence not empty. When the append
  returns, the hook returns success with that entry as \<open>traceEntry\<close>; when it raises, so
  does the hook.
\<close>

theorem write_to_file_traced:
  assumes "toolName ctx = ''write_to_file''"
    and "paramOr (toolParams ctx ''path'') (toolParams ctx ''file_path'') = Some p" and "p \<noteq> []"
    and "resolveActiveIntent E ctx st = (Inr (Some i), st1)"
    and "fsReadFile E (resolveAbsolutePath E (workspacePath ctx) p) (world st1) = (r, w1)"
    and "entry = \<lparr>intentId = id' i,
           contentHash = (case r of Inl e \<Rightarrow> [] | Inr contents \<Rightarrow> sha256Hex E contents),
           filePath = p, mutationClass = MODIFY, timestamp = nowISOString E w1,
           entryToolName = ''write_to_file''\<rparr>"
    and "line =
           ''{'' @ quoted ''intentId'' @ '':'' @ quoteJSONString (id' i) @ '','' @
           quoted ''contentHash'' @ '':'' @ quoteJSONString (contentHash entry) @ '','' @
           quoted ''filePath'' @ '':'' @ quoteJSONString p @ '','' @
           quoted ''mutationClass'' @ '':'' @ quoted ''MODIFY'' @ '','' @
           quoted ''timestamp'' @ '':'' @ quoteJSONString (nowISOString E w1) @ '','' @
           quoted ''toolName'' @ '':'' @ quoted ''write_to_file'' @ ''}'' @ [CHR 0x0A]"
    and "appendFile E ''agent_trace.jsonl'' line w1 = (a, w2)"
  shows "snd (TracePostHook_run E ctx st) =
           st1\<lparr>world := w2,
               calls := calls st1 @
                 [CallFsReadFile (resolveAbsolutePath E (workspacePath ctx) p) r,
                  CallAppendFile ''agent_trace.jsonl'' line]\<rparr>
     \<and> appendCount (calls (snd (TracePostHook_run E ctx st))) = appendCount (calls st) + 1
     \<and> (a = Inr () \<longrightarrow>
          fst (TracePostHook_run E ctx st) = Inr \<lparr>success = True, traceEntry = Some entry\<rparr>)
     \<and> (\<forall>e. a = Inl e \<longrightarrow> fst (TracePostHook_run E ctx st) = Inl e)
     \<and> entryToolName entry \<noteq> []"
proof -
  let ?abs = "resolveAbsolutePath E (workspacePath ctx) p"
  let ?st2 = "st1\<lparr>world := w1, calls := calls st1 @ [CallFsReadFile ?abs r]\<rparr>"
  have targets: "extractTraceTargets E ctx = Inr [\<lparr>path = p, targetClass = MODIFY\<rparr>]"
    using assms(1-3) by (simp add: extractTraceTargets_def singleTarget_def)
  have h: "computeContentHash E ?abs st1 = (contentHash entry, ?st2)"
    using computeContentHash_eq [OF assms(5)] assms(6) by simp
  have e: "makeEntry E ctx i \<lparr>path = p, targetClass = MODIFY\<rparr> (contentHash entry) ?st2 = entry"
    using assms(1,6) by (simp add: makeEntry_def)
  have q: "quoteJSONString ''write_to_file'' = quoted ''write_to_file''"
    by (simp add: quoteJSONString_def quoteChar_def quoted_def)
  have l: "entryLine E entry = line"
    unfolding entryLine_text assms(7) using assms(6)
    by (simp add: mutationClassName_def q)
  have ap: "storageAppendFile E ''agent_trace.jsonl'' line ?st2 =
      (a, st1\<lparr>world := w2, calls := calls st1 @ [CallFsReadFile ?abs r,
                  CallAppendFile ''agent_trace.jsonl'' line]\<rparr>)"
    using assms(8) by (simp add: storageAppendFile_def)
  have loop: "traceLoop E ctx i [\<lparr>path = p, targetClass = MODIFY\<rparr>] None st1 =
      (case a of Inl e \<Rightarrow> Inl e | Inr u \<Rightarrow> Inr (Some entry),
       st1\<lparr>world := w2, calls := calls st1 @ [CallFsReadFile ?abs r,
                  CallAppendFile ''agent_trace.jsonl'' line]\<rparr>)"
    using h e l ap by (simp split: sum.splits)
  have run: "TracePostHook_run E ctx st =
      (case a of Inl e \<Rightarrow> Inl e | Inr u \<Rightarrow> Inr \<lparr>success = True, traceEntry = Some entry\<rparr>,
       st1\<lparr>world := w2, calls := calls st1 @ [CallFsReadFile ?abs r,
                  CallAppendFile ''agent_trace.jsonl'' line]\<rparr>)"
    using assms(1,4) targets loop
    by (simp add: TracePostHook_run_def write_to_file_destructive split: sum.splits)
  have n: "appendCount (calls st1) = appendCount (calls st)"
    using assms(4) by (rule resolveActiveIntent_appendCount)
  have t: "entryToolName entry \<noteq> []" using assms(6) by simp
  show ?thesis
    unfolding run using n t by (simp add: appendCount_def)
qed

lemma resolve_coldState:
  "resolveActiveIntent testEnv (testContext ''write_to_file'' [(''path'', ''src/x.ts'')]) coldState
     = (Inr (Some testIntent),
        snd (resolveActiveIntent testEnv
               (testContext ''write_to_file'' [(''path'', ''src/x.ts'')]) coldState))"
proof -
  have "fst (resolveActiveIntent testEnv
               (testContext ''write_to_file'' [(''path'', ''src/x.ts'')]) coldState)
          = Inr (Some testIntent)"
    by code_simp
  then show ?thesis by (simp add: prod_eq_iff)
qed

theorem write_to_file_traced_witness:
  "fst (TracePostHook_run testEnv (testContext ''write_to_file'' [(''path'', ''src/x.ts'')])
          coldState)
     = Inr \<lparr>success = True,
            traceEntry = Some \<lparr>intentId = ''INT-001'',
              contentHash = ''sha256 of export const x = 1'', filePath = ''src/x.ts'',
              mutationClass = MODIFY, timestamp = ''2026-02-16T14:30:00.000Z'',
              entryToolName = ''write_to_file''\<rparr>\<rparr>
   \<and> calls (snd (TracePostHook_run testEnv
          (testContext ''write_to_file'' [(''path'', ''src/x.ts'')]) coldState))
     = [CallFileExists ''active_intents.yaml'', CallReadFile ''active_intents.yaml'',
        CallYamlParse testYaml,
        CallFsReadFile ''/repo/src/x.ts'' (Inr ''export const x = 1''),
        CallAppendFile ''agent_trace.jsonl''
          (''{'' @ quoted ''intentId'' @ '':'' @ quoted ''INT-001'' @ '','' @
           quoted ''contentHash'' @ '':'' @ quoted ''sha256 of export const x = 1'' @ '','' @
           quoted ''filePath'' @ '':'' @ quoted ''src/x.ts'' @ '','' @
           quoted ''mutationClass'' @ '':'' @ quoted ''MODIFY'' @ '','' @
           quoted ''timestamp'' @ '':'' @ quoted ''2026-02-16T14:30:00.000Z'' @ '','' @
           quoted ''toolName'' @ '':'' @ quoted ''write_to_file'' @ ''}'' @ [CHR 0x0A])]
   \<and> map_of (world (snd (TracePostHook_run testEnv
          (testContext ''write_to_file'' [(''path'', ''src/x.ts'')]) coldState)))
        ''agent_trace.jsonl''
     = Some (''{'' @ quoted ''intentId'' @ '':'' @ quoted ''INT-001'' @ '','' @
           quoted ''contentHash'' @ '':'' @ quoted ''sha256 of export const x = 1'' @ '','' @
           quoted ''filePath'' @ '':'' @ quoted ''src/x.ts'' @ '','' @
           quoted ''mutationClass'' @ '':'' @ quoted ''MODIFY'' @ '','' @
           quoted ''timestamp'' @ '':'' @ quoted ''2026-02-16T14:30:00.000Z'' @ '','' @
           quoted ''toolName'' @ '':'' @ quoted ''write_to_file'' @ ''}'' @ [CHR 0x0A])
   \<and> appendCount (calls coldState) = 0
   \<and> appendCount (calls (snd (TracePostHook_run testEnv
          (testContext ''write_to_file'' [(''path'', ''src/x.ts'')]) coldState))) = 1"
proof -
  let ?c = "testContext ''write_to_file'' [(''path'', ''src/x.ts'')]"
  let ?st1 = "snd (resolveActiveIntent testEnv ?c coldState)"
  let ?abs = "resolveAbsolutePath testEnv (workspacePath ?c) ''src/x.ts''"
  let ?f = "fsReadFile testEnv ?abs (world ?st1)"
  have t: "toolName ?c = ''write_to_file''" by (simp add: testContext_def)
  have p: "paramOr (toolParams ?c ''path'') (toolParams ?c ''file_path'') = Some ''src/x.ts''"
    by (simp add: testContext_def paramOr_def)
  have ne: "''src/x.ts'' \<noteq> []" by simp
  have f: "?f = (fst ?f, snd ?f)" by simp
  have a: "\<And>l w. appendFile testEnv ''agent_trace.jsonl'' l w
              = (Inr (), snd (appendFile testEnv ''agent_trace.jsonl'' l w))"
    by (simp add: testEnv_def)
  note w = write_to_file_traced [OF t p ne resolve_coldState f refl refl a]
  have r1: "fst (TracePostHook_run testEnv ?c coldState)
     = Inr \<lparr>success = True,
            traceEntry = Some \<lparr>intentId = ''INT-001'',
              contentHash = ''sha256 of export const x = 1'', filePath = ''src/x.ts'',
              mutationClass = MODIFY, timestamp = ''2026-02-16T14:30:00.000Z'',
              entryToolName = ''write_to_file''\<rparr>\<rparr>"
    by code_simp
  have r2: "calls (snd (TracePostHook_run testEnv ?c coldState))
     = [CallFileExists ''active_intents.yaml'', CallReadFile ''active_intents.yaml'',
        CallYamlParse testYaml,
        CallFsReadFile ''/repo/src/x.ts'' (Inr ''export const x = 1''),
        CallAppendFile ''agent_trace.jsonl''
          (''{'' @ quoted ''intentId'' @ '':'' @ quoted ''INT-001'' @ '','' @
           quoted ''contentHash'' @ '':'' @ quoted ''sha256 of export const x = 1'' @ '','' @
           quoted ''filePath'' @ '':'' @ quoted ''src/x.ts'' @ '','' @
           quoted ''mutationClass'' @ '':'' @ quoted ''MODIFY'' @ '','' @
           quoted ''timestamp'' @ '':'' @ quoted ''2026-02-16T14:30:00.000Z'' @ '','' @
           quoted ''toolName'' @ '':'' @ quoted ''write_to_file'' @ ''}'' @ [CHR 0x0A])]"
    by code_simp
  have r3: "map_of (world (snd (TracePostHook_run testEnv ?c coldState))) ''agent_trace.jsonl''
     = Some (''{'' @ quoted ''intentId'' @ '':'' @ quoted ''INT-001'' @ '','' @
           quoted ''contentHash'' @ '':'' @ quoted ''sha256 of export const x = 1'' @ '','' @
           quoted ''filePath'' @ '':'' @ quoted ''src/x.ts'' @ '','' @
           quoted ''mutationClass'' @ '':'' @ quoted ''MODIFY'' @ '','' @
           quoted ''timestamp'' @ '':'' @ quoted ''2026-02-16T14:30:00.000Z'' @ '','' @
           quoted ''toolName'' @ '':'' @ quoted ''write_to_file'' @ ''}'' @ [CHR 0x0A])"
    by code_simp
  have c0: "appendCount (calls coldState) = 0" by code_simp
  have n: "appendCount (calls (snd (TracePostHook_run testEnv ?c coldState)))
      = appendCount (calls coldState) + 1"
    using w by blast
  show ?thesis using r1 r2 r3 c0 n by simp
qed

subsection \<open>Unreadable targets\<close>




end
